theory Spec2Isabelle
  imports Main "HOL-Library.AList" "HOL-Library.Word"
begin

section \<open>The log entry of the oplog (src/oplog/entry.js)\<close>

text \<open>
  The module exports six functions: \<open>create\<close>, \<open>verify\<close>, \<open>decode\<close>, \<open>encode\<close>,
  \<open>isEntry\<close> and \<open>isEqual\<close>. Entries are plain JavaScript objects, so the embedding
  works on a datatype of JavaScript values; the four asynchronous functions call
  collaborators (the codec, the hasher, the identity system, the encryption callbacks),
  which are parameters of the model and may throw.
\<close>

subsection \<open>JavaScript values\<close>

type_synonym byte = "8 word"
type_synonym bytes = "byte list"

text \<open>
  An object is the list of its own enumerable properties in insertion order; a property
  can be present with the value \<open>undefined\<close>. Numbers are integers here (the module only
  handles the version number 2 and clock times), a \<open>Uint8Array\<close> is \<open>JBytes\<close>.
\<close>

datatype jsval =
    JUndefined
  | JNull
  | JBool bool
  | JNum int
  | JStr string
  | JBytes bytes
  | JArr "jsval list"
  | JObj "(string \<times> jsval) list"

type_synonym props = "(string \<times> jsval) list"

text \<open>\<open>ToBoolean\<close>: what \<open>if (x)\<close>, \<open>!x\<close>, \<open>x && y\<close> and \<open>x || y\<close> test.\<close>

fun truthy :: "jsval \<Rightarrow> bool" where
  "truthy JUndefined = False"
| "truthy JNull = False"
| "truthy (JBool b) = b"
| "truthy (JNum n) = (n \<noteq> 0)"
| "truthy (JStr s) = (s \<noteq> [])"
| "truthy (JBytes b) = True"
| "truthy (JArr xs) = True"
| "truthy (JObj ps) = True"

text \<open>\<open>x && y\<close> and \<open>x || y\<close> return one of their operands.\<close>

definition js_and :: "jsval \<Rightarrow> jsval \<Rightarrow> jsval" where
  "js_and x y = (if truthy x then y else x)"

definition js_or :: "jsval \<Rightarrow> jsval \<Rightarrow> jsval" where
  "js_or x y = (if truthy x then x else y)"

text \<open>\<open>x == null\<close> holds of \<open>null\<close> and \<open>undefined\<close> only.\<close>

fun nullish :: "jsval \<Rightarrow> bool" where
  "nullish JUndefined = True"
| "nullish JNull = True"
| "nullish _ = False"

fun isArray :: "jsval \<Rightarrow> bool" where
  "isArray (JArr xs) = True"
| "isArray _ = False"

text \<open>
  \<open>JNum n\<close> is the number that the integer literal \<open>n\<close> denotes: the IEEE double
  nearest to \<open>n\<close>. \<open>to_double n\<close> is that double, as the integer it equals: below
  \<open>2^53\<close> in magnitude every integer is a double; above, \<open>n\<close> is rounded to 53
  significant bits, a tie going to the even one; \<open>2^1024\<close> stands for \<open>Infinity\<close>.
  (Fractions, \<open>NaN\<close> and the negative zero are not represented.)
\<close>

fun bitlen :: "nat \<Rightarrow> nat" where
  "bitlen n = (if n = 0 then 0 else Suc (bitlen (n div 2)))"

definition to_double :: "int \<Rightarrow> int" where
  "to_double n =
     (let a = nat \<bar>n\<bar> in
      if a < 2 ^ 53 then n
      else
        let k = bitlen a - 53;
            q = a div 2 ^ k;
            r = a mod 2 ^ k;
            h = 2 ^ (k - 1);
            q' = (if h < r \<or> (r = h \<and> odd q) then q + 1 else q);
            m = q' * 2 ^ k
        in sgn n * int (if 2 ^ 1024 \<le> m then 2 ^ 1024 else m))"

text \<open>
  \<open>x === y\<close>. Values of different types are never equal; \<open>undefined\<close>, \<open>null\<close>,
  booleans and strings are compared by value, numbers as doubles. Two objects, arrays
  or typed arrays are equal only when they are one and the same object; a value of
  the model has no identity, so whether the two operands are the same object is the
  argument \<open>same\<close> (it can hold only of operands with the same content).
\<close>

definition strict_eq :: "bool \<Rightarrow> jsval \<Rightarrow> jsval \<Rightarrow> bool" where
  "strict_eq same x y =
     (case x of
        JUndefined \<Rightarrow> (case y of JUndefined \<Rightarrow> True | _ \<Rightarrow> False)
      | JNull \<Rightarrow> (case y of JNull \<Rightarrow> True | _ \<Rightarrow> False)
      | JBool a \<Rightarrow> (case y of JBool b \<Rightarrow> a = b | _ \<Rightarrow> False)
      | JNum m \<Rightarrow> (case y of JNum n \<Rightarrow> to_double m = to_double n | _ \<Rightarrow> False)
      | JStr s \<Rightarrow> (case y of JStr t \<Rightarrow> s = t | _ \<Rightarrow> False)
      | JBytes a \<Rightarrow> (case y of JBytes b \<Rightarrow> same \<and> a = b | _ \<Rightarrow> False)
      | JArr xs \<Rightarrow> (case y of JArr ys \<Rightarrow> same \<and> xs = ys | _ \<Rightarrow> False)
      | JObj ps \<Rightarrow> (case y of JObj qs \<Rightarrow> same \<and> ps = qs | _ \<Rightarrow> False))"

text \<open>A missing argument is \<open>undefined\<close>; a parameter \<open>p = d\<close> then takes its default.\<close>

definition default_arg :: "jsval \<Rightarrow> jsval \<Rightarrow> jsval" where
  "default_arg x d = (if x = JUndefined then d else x)"

text \<open>The decimal name of an array index, as a property key.\<close>

fun string_of_nat :: "nat \<Rightarrow> string" where
  "string_of_nat n =
     (if n < 10 then [''0123456789'' ! n]
      else string_of_nat (n div 10) @ [''0123456789'' ! (n mod 10)])"

definition index_keys :: "nat \<Rightarrow> string list" where
  "index_keys n = map string_of_nat [0..<n]"

text \<open>
  The own enumerable properties of a value: what \<open>Object.assign({}, x)\<close> and
  \<open>{...x}\<close> copy. Both skip \<open>null\<close> and \<open>undefined\<close>; an array, a string and a
  \<open>Uint8Array\<close> have their indices.
\<close>

fun own_props :: "jsval \<Rightarrow> props" where
  "own_props (JObj ps) = ps"
| "own_props (JArr xs) = zip (index_keys (length xs)) xs"
| "own_props (JStr s) = zip (index_keys (length s)) (map (\<lambda>c. JStr [c]) s)"
| "own_props (JBytes bs) = zip (index_keys (length bs)) (map (\<lambda>b. JNum (uint b)) bs)"
| "own_props _ = []"

text \<open>
  Reading the property \<open>x.k\<close> of a value that is not \<open>null\<close> or \<open>undefined\<close>: the
  value stored, \<open>undefined\<close> when there is none. Every read of the module is guarded
  against \<open>null\<close> and \<open>undefined\<close>, or is modelled by \<open>read_prop\<close> below.
\<close>

definition get :: "jsval \<Rightarrow> string \<Rightarrow> jsval" where
  "get x k = (case map_of (own_props x) k of None \<Rightarrow> JUndefined | Some v \<Rightarrow> v)"

subsection \<open>Errors, collaborator calls and their trace\<close>

text \<open>
  Every \<open>throw new Error(msg)\<close> of the module is \<open>Error msg\<close>. A \<open>TypeError\<close> is what
  the language raises on a property access on \<open>null\<close> or an assignment to a property of
  a primitive. An exception raised inside a collaborator is \<open>Foreign\<close>, with the
  collaborator's own message; the module propagates it unchanged unless a
  \<open>try\<close>/\<open>catch\<close> replaces it.
\<close>

type_synonym exn = string

datatype error = Error string | TypeError string | Foreign exn

text \<open>The calls the module makes to its collaborators, with their arguments.\<close>

datatype call =
    ClockCall jsval
  | BlockEncode jsval
  | BlockDecode bytes
  | EncryptPayloadCall bytes
  | DecryptPayloadCall jsval
  | EncryptEntryCall bytes
  | DecryptEntryCall jsval
  | SignCall bytes
  | VerifyCall jsval jsval bytes

text \<open>
  An asynchronous function returns its result or the error it raised, and the calls it
  made to collaborators on the way, in order.
\<close>

type_synonym 'a io = "(error + 'a) \<times> call list"

definition io_return :: "'a \<Rightarrow> 'a io" where
  "io_return x = (Inr x, [])"

definition io_throw :: "error \<Rightarrow> 'a io" where
  "io_throw e = (Inl e, [])"

definition io_bind :: "'a io \<Rightarrow> ('a \<Rightarrow> 'b io) \<Rightarrow> 'b io" where
  "io_bind m f =
     (case m of
        (Inl e, t) \<Rightarrow> (Inl e, t)
      | (Inr x, t) \<Rightarrow> (case f x of (r, t') \<Rightarrow> (r, t @ t')))"

text \<open>A call \<open>c\<close> to a collaborator that answers \<open>r\<close>.\<close>

definition io_call :: "call \<Rightarrow> exn + 'a \<Rightarrow> 'a io" where
  "io_call c r = (case r of Inl x \<Rightarrow> (Inl (Foreign x), [c]) | Inr v \<Rightarrow> (Inr v, [c]))"

text \<open>\<open>try { m } catch (e) { throw new Error(msg) }\<close>\<close>

definition io_catch :: "'a io \<Rightarrow> string \<Rightarrow> 'a io" where
  "io_catch m msg = (case m of (Inl e, t) \<Rightarrow> (Inl (Error msg), t) | (Inr x, t) \<Rightarrow> (Inr x, t))"

text \<open>
  A result that is not an error of the module's own: a value, or an exception that a
  collaborator raised.
\<close>

fun foreign_only :: "error + 'a \<Rightarrow> bool" where
  "foreign_only (Inl (Foreign x)) = True"
| "foreign_only (Inl _) = False"
| "foreign_only (Inr _) = True"

subsection \<open>The collaborators\<close>

type_synonym cid = bytes

text \<open>
  \<open>codec\<close> (dag-cbor), \<open>hasher\<close> (sha256) and \<open>hashStringEncoding\<close> (base58btc) are the
  module's three constants; they come from libraries outside the repository and are
  parameters here. \<open>hasher_digest\<close> stands for the digest together with the
  construction of the content identifier from it, \<open>cid_toString\<close> for
  \<open>cid.toString(hashStringEncoding)\<close>.
\<close>

record env =
  codec_encode :: "jsval \<Rightarrow> exn + bytes"
  codec_decode :: "bytes \<Rightarrow> exn + jsval"
  hasher_digest :: "bytes \<Rightarrow> cid"
  cid_toString :: "cid \<Rightarrow> string"
  clock_time :: int

record block =
  block_cid :: cid
  block_bytes :: bytes
  block_value :: jsval

text \<open>
  Modelled from the spec: \<open>Block.encode\<close> and \<open>Block.decode\<close> of the multiformats
  library are not among the sources. The spec (Canonical Codec) gives their contract:
  \<open>encode(value) -> (contentHash, bytes)\<close> and \<open>decode(bytes) -> value\<close>, where
  \<open>contentHash\<close> is a fixed cryptographic digest of \<open>bytes\<close>.
\<close>

definition Block_encode :: "env \<Rightarrow> jsval \<Rightarrow> block io" where
  "Block_encode env v =
     io_bind (io_call (BlockEncode v) (codec_encode env v)) (\<lambda>bs.
       io_return \<lparr>block_cid = hasher_digest env bs, block_bytes = bs, block_value = v\<rparr>)"

definition Block_decode :: "env \<Rightarrow> bytes \<Rightarrow> block io" where
  "Block_decode env bs =
     io_bind (io_call (BlockDecode bs) (codec_decode env bs)) (\<lambda>v.
       io_return \<lparr>block_cid = hasher_digest env bs, block_bytes = bs, block_value = v\<rparr>)"

text \<open>
  Modelled from the spec: \<open>./clock.js\<close> is not among the sources. The spec describes the
  clock as a value \<open>{id, time}\<close> that the clock provider constructs from a public key;
  it does not give the first time, which is the parameter \<open>clock_time\<close>.
\<close>

definition Clock :: "env \<Rightarrow> jsval \<Rightarrow> jsval" where
  "Clock env pk = JObj [(''id'', pk), (''time'', JNum (clock_time env))]"

text \<open>
  An identity has a public key, a hash and a signer. The module calls
  \<open>identity.sign(identity, bytes)\<close> with the identity itself as first argument, so
  \<open>sign\<close> is the signer of this identity.
\<close>

record identity =
  publicKey :: jsval
  hash :: jsval
  sign :: "bytes \<Rightarrow> exn + jsval"

text \<open>The identity system: \<open>identities.verify(signature, publicKey, bytes)\<close>.\<close>

record identities =
  identities_verify :: "jsval \<Rightarrow> jsval \<Rightarrow> bytes \<Rightarrow> exn + bool"

subsection \<open>isEntry and isEqual\<close>

definition isEntry :: "jsval \<Rightarrow> jsval" where
  "isEntry obj =
     js_and (js_and (js_and (js_and (js_and (js_and obj
       (JBool (get obj ''id'' \<noteq> JUndefined)))
       (JBool (get obj ''next'' \<noteq> JUndefined)))
       (JBool (get obj ''payload'' \<noteq> JUndefined)))
       (JBool (get obj ''v'' \<noteq> JUndefined)))
       (JBool (get obj ''clock'' \<noteq> JUndefined)))
       (JBool (get obj ''refs'' \<noteq> JUndefined))"

text \<open>
  \<open>same\<close> says whether \<open>a.hash\<close> and \<open>b.hash\<close> are one and the same object; it
  matters only when the hashes are objects, arrays or typed arrays.
\<close>

definition isEqual :: "bool \<Rightarrow> jsval \<Rightarrow> jsval \<Rightarrow> jsval" where
  "isEqual same a b =
     js_and (js_and (js_and a b) (get a ''hash''))
       (JBool (strict_eq same (get a ''hash'') (get b ''hash'')))"

subsection \<open>create\<close>

definition next_not_array :: string where
  "next_not_array = [CHR 0x27] @ ''next'' @ [CHR 0x27] @ '' argument is not an array''"

text \<open>
  \<open>identity\<close> is \<open>None\<close> for \<open>null\<close> or \<open>undefined\<close>; \<open>encryptPayloadFn\<close> is \<open>None\<close>
  when it is not given (falsy). \<open>clock0\<close>, \<open>next0\<close> and \<open>refs0\<close> are the arguments as
  passed, \<open>JUndefined\<close> when omitted.
\<close>

definition create ::
  "env \<Rightarrow> identity option \<Rightarrow> jsval \<Rightarrow> jsval \<Rightarrow> (bytes \<Rightarrow> exn + bytes) option \<Rightarrow>
   jsval \<Rightarrow> jsval \<Rightarrow> jsval \<Rightarrow> jsval io" where
  "create env identity id' payload encryptPayloadFn clock0 next0 refs0 =
     (let clock1 = default_arg clock0 JNull;
          next = default_arg next0 (JArr []);
          refs = default_arg refs0 (JArr [])
      in case identity of
           None \<Rightarrow> io_throw (Error ''Identity is required, cannot create entry'')
         | Some idn \<Rightarrow>
             if nullish id' then io_throw (Error ''Entry requires an id'')
             else if nullish payload then io_throw (Error ''Entry requires a payload'')
             else if nullish next \<or> \<not> isArray next then io_throw (Error next_not_array)
             else
               io_bind (if truthy clock1 then io_return clock1
                        else io_call (ClockCall (publicKey idn)) (Inr (Clock env (publicKey idn))))
               (\<lambda>clock.
               io_bind (case encryptPayloadFn of
                          None \<Rightarrow> io_return JUndefined
                        | Some f \<Rightarrow>
                            io_bind (Block_encode env payload) (\<lambda>blk.
                            io_bind (io_call (EncryptPayloadCall (block_bytes blk))
                                       (f (block_bytes blk))) (\<lambda>c.
                            io_return (JBytes c))))
               (\<lambda>encryptedPayload.
               let entry = [(''id'', id'),
                            (''payload'', js_or encryptedPayload payload),
                            (''next'', next),
                            (''refs'', refs),
                            (''clock'', clock),
                            (''v'', JNum 2)]
               in
               io_bind (Block_encode env (JObj entry)) (\<lambda>blk.
               io_bind (io_call (SignCall (block_bytes blk)) (sign idn (block_bytes blk)))
               (\<lambda>signature.
               let entry = AList.update ''key'' (publicKey idn) entry;
                   entry = AList.update ''identity'' (hash idn) entry;
                   entry = AList.update ''sig'' signature entry;
                   entry = AList.update ''payload'' payload entry;
                   entry = (if encryptPayloadFn \<noteq> None
                            then AList.update ''_payload'' encryptedPayload entry
                            else entry)
               in io_return (JObj entry))))))"

subsection \<open>verify\<close>

definition verify :: "env \<Rightarrow> identities option \<Rightarrow> jsval \<Rightarrow> bool io" where
  "verify env ids entry =
     (case ids of
        None \<Rightarrow> io_throw (Error ''Identities is required, cannot verify entry'')
      | Some idp \<Rightarrow>
          if \<not> truthy (isEntry entry) then io_throw (Error ''Invalid Log entry'')
          else if \<not> truthy (get entry ''key'')
            then io_throw (Error ''Entry doesn't have a key'')
          else if \<not> truthy (get entry ''sig'')
            then io_throw (Error ''Entry doesn't have a signature'')
          else
            let e = JObj (own_props entry);
                v = JObj [(''id'', get e ''id''),
                          (''payload'', js_or (get e ''_payload'') (get e ''payload'')),
                          (''next'', get e ''next''),
                          (''refs'', get e ''refs''),
                          (''clock'', get e ''clock''),
                          (''v'', get e ''v'')]
            in io_bind (Block_encode env v) (\<lambda>blk.
                 io_call (VerifyCall (get entry ''sig'') (get entry ''key'') (block_bytes blk))
                   (identities_verify idp (get entry ''sig'') (get entry ''key'')
                      (block_bytes blk))))"

subsection \<open>decode\<close>

text \<open>
  The module is an ES module, hence strict code: reading a property of \<open>null\<close> or
  \<open>undefined\<close> raises a \<open>TypeError\<close>, and so does an assignment to a property of a
  primitive value. An array or a \<open>Uint8Array\<close> that is given a named property is
  represented by the object of its properties (the only later use of it is the spread
  \<open>{...entry, hash}\<close>, which copies just these).
\<close>

definition read_prop :: "jsval \<Rightarrow> string \<Rightarrow> jsval io" where
  "read_prop x k =
     (if nullish x then io_throw (TypeError ''Cannot read properties of null or undefined'')
      else io_return (get x k))"

text \<open>The values that can carry properties: objects, arrays and typed arrays.\<close>

fun is_object :: "jsval \<Rightarrow> bool" where
  "is_object (JObj ps) = True"
| "is_object (JArr xs) = True"
| "is_object (JBytes bs) = True"
| "is_object _ = False"

definition write_prop :: "jsval \<Rightarrow> string \<Rightarrow> jsval \<Rightarrow> jsval io" where
  "write_prop x k v =
     (if is_object x then io_return (JObj (AList.update k v (own_props x)))
      else io_throw (TypeError ''Cannot create or set property''))"

text \<open>
  Lines 166-174: the entry-level decryption. Without \<open>decryptEntryFn\<close> the bytes are
  kept and \<open>cid\<close> stays undefined (\<open>None\<close>).
\<close>

definition decrypt_entry ::
  "env \<Rightarrow> bytes \<Rightarrow> (jsval \<Rightarrow> exn + bytes) option \<Rightarrow> (bytes \<times> cid option) io" where
  "decrypt_entry env bs decryptEntryFn =
     (case decryptEntryFn of
        None \<Rightarrow> io_return (bs, None)
      | Some d \<Rightarrow>
          io_catch
            (io_bind (Block_decode env bs) (\<lambda>encryptedEntry.
             io_bind (io_call (DecryptEntryCall (block_value encryptedEntry))
                        (d (block_value encryptedEntry))) (\<lambda>bs'.
             io_return (bs', Some (block_cid encryptedEntry)))))
            ''Could not decrypt entry'')"

text \<open>Lines 179-188: the payload-level decryption of the decoded entry.\<close>

definition decrypt_payload ::
  "env \<Rightarrow> jsval \<Rightarrow> (jsval \<Rightarrow> exn + bytes) option \<Rightarrow> jsval io" where
  "decrypt_payload env entry decryptPayloadFn =
     (case decryptPayloadFn of
        None \<Rightarrow> io_return entry
      | Some g \<Rightarrow>
          io_catch
            (io_bind (read_prop entry ''payload'') (\<lambda>p.
             io_bind (io_call (DecryptPayloadCall p) (g p)) (\<lambda>decryptedPayloadBytes.
             io_bind (Block_decode env decryptedPayloadBytes) (\<lambda>blk.
             io_bind (write_prop entry ''_payload'' p) (\<lambda>entry.
             write_prop entry ''payload'' (block_value blk))))))
            ''Could not decrypt payload'')"

definition decode ::
  "env \<Rightarrow> bytes \<Rightarrow> (jsval \<Rightarrow> exn + bytes) option \<Rightarrow> (jsval \<Rightarrow> exn + bytes) option \<Rightarrow>
   jsval io" where
  "decode env bs decryptEntryFn decryptPayloadFn =
     io_bind (decrypt_entry env bs decryptEntryFn) (\<lambda>(bs, cid).
     io_bind (Block_decode env bs) (\<lambda>decodedEntry.
     io_bind (decrypt_payload env (block_value decodedEntry) decryptPayloadFn) (\<lambda>entry.
     let cid = (case cid of Some c \<Rightarrow> c | None \<Rightarrow> block_cid decodedEntry);
         hash = cid_toString env cid
     in io_return (JObj (AList.update ''hash'' (JStr hash) (own_props entry))))))"

subsection \<open>encode\<close>

text \<open>Lines 207-214: the object that is handed to the codec.\<close>

definition encode_value :: "jsval \<Rightarrow> (bytes \<Rightarrow> exn + bytes) option \<Rightarrow> jsval" where
  "encode_value entry encryptPayloadFn =
     (let e = own_props entry;
          e = (if encryptPayloadFn \<noteq> None
               then AList.update ''payload'' (get (JObj e) ''_payload'') e
               else e);
          e = AList.delete ''_payload'' e;
          e = AList.delete ''hash'' e
      in JObj e)"

record encoded =
  enc_hash :: string
  enc_bytes :: bytes

definition encode ::
  "env \<Rightarrow> jsval \<Rightarrow> (bytes \<Rightarrow> exn + bytes) option \<Rightarrow> (bytes \<Rightarrow> exn + bytes) option \<Rightarrow>
   encoded io" where
  "encode env entry encryptEntryFn encryptPayloadFn =
     io_bind (Block_encode env (encode_value entry encryptPayloadFn)) (\<lambda>blk.
     io_bind (case encryptEntryFn of
                None \<Rightarrow> io_return (block_cid blk, block_bytes blk)
              | Some f \<Rightarrow>
                  io_bind (io_call (EncryptEntryCall (block_bytes blk)) (f (block_bytes blk)))
                  (\<lambda>bs.
                  io_bind (Block_encode env (JBytes bs)) (\<lambda>encryptedEntry.
                  io_return (block_cid encryptedEntry, block_bytes encryptedEntry))))
     (\<lambda>(cid, bs).
     io_return \<lparr>enc_hash = cid_toString env cid, enc_bytes = bs\<rparr>))"

subsection \<open>An executable instance of the collaborators\<close>

text \<open>
  A small codec, hasher, identity system and cipher on which the functions above can be
  run. The codec writes a value in postfix form, one instruction per node, and reads it
  back with a stack; it handles numbers between 0 and 255.
\<close>

definition toy_ser_string :: "string \<Rightarrow> bytes" where
  "toy_ser_string s = 5 # concat (map (\<lambda>c. [6, of_char c]) s)"

fun toy_ser :: "jsval \<Rightarrow> bytes" where
  "toy_ser JUndefined = [0]"
| "toy_ser JNull = [1]"
| "toy_ser (JBool b) = [if b then 3 else 2]"
| "toy_ser (JNum n) = [4, word_of_int n]"
| "toy_ser (JStr s) = toy_ser_string s"
| "toy_ser (JBytes bs) = 7 # concat (map (\<lambda>b. [8, b]) bs)"
| "toy_ser (JArr xs) = 9 # concat (map (\<lambda>x. toy_ser x @ [10]) xs)"
| "toy_ser (JObj ps) =
     11 # concat (map (\<lambda>p. toy_ser_string (fst p) @ toy_ser (snd p) @ [12]) ps)"

fun toy_run :: "bytes \<Rightarrow> jsval list \<Rightarrow> jsval list option" where
  "toy_run [] st = Some st"
| "toy_run (t # bs) st =
     (if t = 0 then toy_run bs (JUndefined # st)
      else if t = 1 then toy_run bs (JNull # st)
      else if t = 2 then toy_run bs (JBool False # st)
      else if t = 3 then toy_run bs (JBool True # st)
      else if t = 4 then
        (case bs of [] \<Rightarrow> None | n # bs' \<Rightarrow> toy_run bs' (JNum (uint n) # st))
      else if t = 5 then toy_run bs (JStr [] # st)
      else if t = 6 then
        (case (bs, st) of
           (c # bs', JStr s # st') \<Rightarrow> toy_run bs' (JStr (s @ [char_of (unat c)]) # st')
         | _ \<Rightarrow> None)
      else if t = 7 then toy_run bs (JBytes [] # st)
      else if t = 8 then
        (case (bs, st) of
           (b # bs', JBytes s # st') \<Rightarrow> toy_run bs' (JBytes (s @ [b]) # st')
         | _ \<Rightarrow> None)
      else if t = 9 then toy_run bs (JArr [] # st)
      else if t = 10 then
        (case st of
           x # JArr xs # st' \<Rightarrow> toy_run bs (JArr (xs @ [x]) # st')
         | _ \<Rightarrow> None)
      else if t = 11 then toy_run bs (JObj [] # st)
      else if t = 12 then
        (case st of
           x # JStr k # JObj ps # st' \<Rightarrow> toy_run bs (JObj (ps @ [(k, x)]) # st')
         | _ \<Rightarrow> None)
      else None)"

definition toy_decode :: "bytes \<Rightarrow> exn + jsval" where
  "toy_decode bs = (case toy_run bs [] of Some [v] \<Rightarrow> Inr v | _ \<Rightarrow> Inl ''malformed'')"

definition toy_env :: env where
  "toy_env =
     \<lparr>codec_encode = (\<lambda>v. Inr (toy_ser v)),
      codec_decode = toy_decode,
      hasher_digest = (\<lambda>bs. [word_of_nat (length bs), sum_list bs]),
      cid_toString = (\<lambda>c. CHR ''z'' # concat (map (\<lambda>b. string_of_nat (unat b) @ ''.'') c)),
      clock_time = 0\<rparr>"

text \<open>The signature of \<open>bs\<close> is \<open>bs\<close> behind a tag byte; only the key \<open>pk\<close> verifies.\<close>

definition toy_identity :: identity where
  "toy_identity =
     \<lparr>publicKey = JStr ''pk'', hash = JStr ''zid'', sign = (\<lambda>bs. Inr (JBytes (83 # bs)))\<rparr>"

definition toy_identities :: identities where
  "toy_identities =
     \<lparr>identities_verify = (\<lambda>sg key bs. Inr (sg = JBytes (83 # bs) \<and> key = JStr ''pk''))\<rparr>"

definition toy_encrypt :: "bytes \<Rightarrow> exn + bytes" where
  "toy_encrypt bs = Inr (map (\<lambda>b. b + 1) bs)"

definition toy_decrypt :: "jsval \<Rightarrow> exn + bytes" where
  "toy_decrypt x = (case x of JBytes c \<Rightarrow> Inr (map (\<lambda>b. b - 1) c) | _ \<Rightarrow> Inl ''not a ciphertext'')"

text \<open>
  A codec that refuses \<open>undefined\<close>, wherever it occurs in the value: the data model of
  a canonical encoding has no such value.
\<close>

fun has_undefined :: "jsval \<Rightarrow> bool" where
  "has_undefined JUndefined = True"
| "has_undefined (JArr xs) = (\<exists>x \<in> set xs. has_undefined x)"
| "has_undefined (JObj ps) = (\<exists>p \<in> set ps. has_undefined (snd p))"
| "has_undefined _ = False"

definition toy_strict_env :: env where
  "toy_strict_env =
     toy_env\<lparr>codec_encode :=
       (\<lambda>v. if has_undefined v then Inl ''undefined is not supported'' else Inr (toy_ser v))\<rparr>"

text \<open>
  An identity whose public key is the empty string, an identity whose signer returns
  the empty string, and an identity system that accepts every signature.
\<close>

definition toy_keyless_identity :: identity where
  "toy_keyless_identity =
     \<lparr>publicKey = JStr [], hash = JStr ''zid'', sign = (\<lambda>bs. Inr (JBytes (83 # bs)))\<rparr>"

definition toy_mute_identity :: identity where
  "toy_mute_identity =
     \<lparr>publicKey = JStr ''pk'', hash = JStr ''zid'', sign = (\<lambda>bs. Inr (JStr []))\<rparr>"

definition toy_open_identities :: identities where
  "toy_open_identities = \<lparr>identities_verify = (\<lambda>sg key bs. Inr True)\<rparr>"

section \<open>Properties\<close>

subsection \<open>Reading properties\<close>

lemma get_update:
  "get (JObj (AList.update k v ps)) k' = (if k' = k then v else get (JObj ps) k')"
  by (simp add: get_def update_conv')

lemma get_delete:
  "get (JObj (AList.delete k ps)) k' = (if k' = k then JUndefined else get (JObj ps) k')"
  by (simp add: get_def delete_conv')

lemma get_own_props: "get (JObj (own_props x)) k = get x k"
  by (simp add: get_def)

lemma get_Nil: "get (JObj []) k = JUndefined"
  by (simp add: get_def)

lemma get_Cons: "get (JObj ((k, v) # ps)) k' = (if k' = k then v else get (JObj ps) k')"
  by (simp add: get_def)

lemma not_nullish: "\<not> nullish x \<Longrightarrow> x \<noteq> JUndefined"
  by (cases x) auto

lemma isArray_defined: "isArray x \<Longrightarrow> x \<noteq> JUndefined \<and> \<not> nullish x"
  by (cases x) auto

lemma truthy_defined: "truthy x \<Longrightarrow> x \<noteq> JUndefined"
  by (cases x) auto

lemma default_arg_defined: "d \<noteq> JUndefined \<Longrightarrow> default_arg x d \<noteq> JUndefined"
  by (simp add: default_arg_def)

subsection \<open>Results of the asynchronous steps\<close>

lemma fst_io_bind:
  "fst (io_bind m f) = (case fst m of Inl e \<Rightarrow> Inl e | Inr x \<Rightarrow> fst (f x))"
  by (simp add: io_bind_def split: prod.splits sum.splits)

lemma fst_io_call: "fst (io_call c r) = (case r of Inl x \<Rightarrow> Inl (Foreign x) | Inr v \<Rightarrow> Inr v)"
  by (simp add: io_call_def split: sum.splits)

lemma fst_io_return: "fst (io_return x) = Inr x"
  by (simp add: io_return_def)

lemma fst_io_throw: "fst (io_throw e) = Inl e"
  by (simp add: io_throw_def)

lemma fst_io_catch:
  "fst (io_catch m msg) = (case fst m of Inl e \<Rightarrow> Inl (Error msg) | Inr x \<Rightarrow> Inr x)"
  by (simp add: io_catch_def split: prod.splits sum.splits)

lemma fst_Block_encode:
  "fst (Block_encode env v) =
     (case codec_encode env v of
        Inl x \<Rightarrow> Inl (Foreign x)
      | Inr bs \<Rightarrow> Inr \<lparr>block_cid = hasher_digest env bs, block_bytes = bs, block_value = v\<rparr>)"
  by (simp add: Block_encode_def fst_io_bind fst_io_call fst_io_return split: sum.splits)

lemma fst_Block_decode:
  "fst (Block_decode env bs) =
     (case codec_decode env bs of
        Inl x \<Rightarrow> Inl (Foreign x)
      | Inr v \<Rightarrow> Inr \<lparr>block_cid = hasher_digest env bs, block_bytes = bs, block_value = v\<rparr>)"
  by (simp add: Block_decode_def fst_io_bind fst_io_call fst_io_return split: sum.splits)

lemmas fst_io = fst_io_bind fst_io_call fst_io_return fst_io_throw fst_io_catch
  fst_Block_encode fst_Block_decode

lemma snd_io_bind:
  "snd (io_bind m f) = snd m @ (case fst m of Inl e \<Rightarrow> [] | Inr x \<Rightarrow> snd (f x))"
  by (simp add: io_bind_def split: prod.splits sum.splits)

lemma snd_io_call: "snd (io_call c r) = [c]"
  by (simp add: io_call_def split: sum.splits)

lemma snd_io_return: "snd (io_return x) = []"
  by (simp add: io_return_def)

lemma snd_Block_encode: "snd (Block_encode env v) = [BlockEncode v]"
  by (simp add: Block_encode_def snd_io_bind snd_io_call snd_io_return split: sum.splits)

lemma snd_io_throw: "snd (io_throw e) = []"
  by (simp add: io_throw_def)

lemmas snd_io = snd_io_bind snd_io_call snd_io_return snd_io_throw snd_Block_encode

lemma foreign_only_bind:
  assumes "foreign_only (fst m)" and "\<And>x. foreign_only (fst (f x))"
  shows "foreign_only (fst (io_bind m f))"
proof (cases "fst m")
  case (Inl e)
  with assms(1) show ?thesis by (cases e) (simp_all add: fst_io_bind)
next
  case (Inr x)
  with assms(2) show ?thesis by (simp add: fst_io_bind)
qed

lemma foreign_only_call: "foreign_only (fst (io_call c r))"
  by (cases r) (simp_all add: fst_io_call)

lemma foreign_only_return: "foreign_only (fst (io_return x))"
  by (simp add: fst_io_return)

lemma foreign_only_Block_encode: "foreign_only (fst (Block_encode env v))"
  by (auto simp: Block_encode_def intro!: foreign_only_bind foreign_only_call foreign_only_return)

lemma foreign_only_Block_decode: "foreign_only (fst (Block_decode env v))"
  by (auto simp: Block_decode_def intro!: foreign_only_bind foreign_only_call foreign_only_return)

lemmas foreign_only_io = foreign_only_bind foreign_only_call foreign_only_return
  foreign_only_Block_encode foreign_only_Block_decode

lemma foreign_only_iff: "foreign_only r = (\<forall>m. r \<noteq> Inl (Error m) \<and> r \<noteq> Inl (TypeError m))"
  by (cases r rule: foreign_only.cases) auto



lemma foreign_only_if:
  "foreign_only (fst a) \<Longrightarrow> foreign_only (fst b) \<Longrightarrow> foreign_only (fst (if c then a else b))"
  by simp

lemma foreign_only_case_option:
  "foreign_only (fst a) \<Longrightarrow> (\<And>y. foreign_only (fst (f y))) \<Longrightarrow>
   foreign_only (fst (case x of None \<Rightarrow> a | Some y \<Rightarrow> f y))"
  by (cases x) simp_all

subsection \<open>The steps of verify\<close>





lemma verify_well_formed:
  assumes "truthy (isEntry entry)" "truthy (get entry ''key'')" "truthy (get entry ''sig'')"
  shows "fst (verify env (Some idp) entry) =
     (case codec_encode env
        (JObj [(''id'', get entry ''id''),
               (''payload'', js_or (get entry ''_payload'') (get entry ''payload'')),
               (''next'', get entry ''next''),
               (''refs'', get entry ''refs''),
               (''clock'', get entry ''clock''),
               (''v'', get entry ''v'')]) of
        Inl x \<Rightarrow> Inl (Foreign x)
      | Inr bs \<Rightarrow>
          (case identities_verify idp (get entry ''sig'') (get entry ''key'') bs of
             Inl x \<Rightarrow> Inl (Foreign x)
           | Inr r \<Rightarrow> Inr r))"
  using assms
  by (simp add: verify_def Let_def fst_io get_own_props split: sum.splits)

lemma snd_verify_well_formed:
  assumes "truthy (isEntry entry)" "truthy (get entry ''key'')" "truthy (get entry ''sig'')"
  shows "snd (verify env (Some idp) entry) =
     BlockEncode
        (JObj [(''id'', get entry ''id''),
               (''payload'', js_or (get entry ''_payload'') (get entry ''payload'')),
               (''next'', get entry ''next''),
               (''refs'', get entry ''refs''),
               (''clock'', get entry ''clock''),
               (''v'', get entry ''v'')]) #
     (case codec_encode env
        (JObj [(''id'', get entry ''id''),
               (''payload'', js_or (get entry ''_payload'') (get entry ''payload'')),
               (''next'', get entry ''next''),
               (''refs'', get entry ''refs''),
               (''clock'', get entry ''clock''),
               (''v'', get entry ''v'')]) of
        Inl x \<Rightarrow> []
      | Inr bs \<Rightarrow> [VerifyCall (get entry ''sig'') (get entry ''key'') bs])"
  using assms
  by (simp add: verify_def Let_def snd_io fst_io get_own_props split: sum.splits)

subsection \<open>Creating and verifying\<close>

text \<open>
  Claim C1, as stated, fails on inputs that are valid by its own terms. An identity
  that is not \<open>null\<close> can have the empty string as public key: \<open>create\<close> returns an
  entry whose \<open>key\<close> is empty and \<open>verify\<close> raises \<open>"Entry doesn't have a key"\<close>, even
  against an identity system that accepts every signature. A signer that returns the
  empty string gives \<open>"Entry doesn't have a signature"\<close> in the same way. And a payload
  that is not \<open>null\<close> can be one that the codec refuses (here an array holding
  \<open>undefined\<close>): then \<open>create\<close> raises the codec's exception.
\<close>

theorem create_verify_keyless_counterexample:
  "fst (create toy_env (Some toy_keyless_identity) (JStr ''log1'') (JStr ''hello'') None
          JUndefined JUndefined JUndefined) =
     Inr (JObj [(''id'', JStr ''log1''), (''payload'', JStr ''hello''), (''next'', JArr []),
                (''refs'', JArr []),
                (''clock'', JObj [(''id'', JStr []), (''time'', JNum 0)]), (''v'', JNum 2),
                (''key'', JStr []), (''identity'', JStr ''zid''),
                (''sig'', JBytes (83 # toy_ser
                   (JObj [(''id'', JStr ''log1''), (''payload'', JStr ''hello''),
                          (''next'', JArr []), (''refs'', JArr []),
                          (''clock'', JObj [(''id'', JStr []), (''time'', JNum 0)]),
                          (''v'', JNum 2)])))]) \<and>
   fst (verify toy_env (Some toy_open_identities)
     (JObj [(''id'', JStr ''log1''), (''payload'', JStr ''hello''), (''next'', JArr []),
                (''refs'', JArr []),
                (''clock'', JObj [(''id'', JStr []), (''time'', JNum 0)]), (''v'', JNum 2),
                (''key'', JStr []), (''identity'', JStr ''zid''),
                (''sig'', JBytes (83 # toy_ser
                   (JObj [(''id'', JStr ''log1''), (''payload'', JStr ''hello''),
                          (''next'', JArr []), (''refs'', JArr []),
                          (''clock'', JObj [(''id'', JStr []), (''time'', JNum 0)]),
                          (''v'', JNum 2)])))])) =
     Inl (Error ''Entry doesn't have a key'') \<and>
   fst (create toy_env (Some toy_mute_identity) (JStr ''log1'') (JStr ''hello'') None
          (JNum 7) JUndefined JUndefined) =
     Inr (JObj [(''id'', JStr ''log1''), (''payload'', JStr ''hello''), (''next'', JArr []),
                (''refs'', JArr []), (''clock'', JNum 7), (''v'', JNum 2),
                (''key'', JStr ''pk''), (''identity'', JStr ''zid''), (''sig'', JStr [])]) \<and>
   fst (verify toy_env (Some toy_open_identities)
     (JObj [(''id'', JStr ''log1''), (''payload'', JStr ''hello''), (''next'', JArr []),
                (''refs'', JArr []), (''clock'', JNum 7), (''v'', JNum 2),
                (''key'', JStr ''pk''), (''identity'', JStr ''zid''), (''sig'', JStr [])])) =
     Inl (Error ''Entry doesn't have a signature'') \<and>
   fst (create toy_strict_env (Some toy_identity) (JStr ''log1'') (JArr [JUndefined]) None
          JUndefined JUndefined JUndefined) =
     Inl (Foreign ''undefined is not supported'')"
  by (simp add: create_def verify_def Let_def default_arg_def Clock_def js_or_def js_and_def
      isEntry_def get_Cons get_Nil fst_io toy_env_def toy_strict_env_def toy_keyless_identity_def
      toy_mute_identity_def toy_open_identities_def toy_identity_def)


text \<open>
  Claim C1, amended. For every valid input (an identity, an id and a payload that are
  not \<open>null\<close> or \<open>undefined\<close>, and \<open>next\<close> an array) such that the codec encodes the
  signing snapshot, the identity's public key is truthy, its signer returns a truthy
  signature, and the identity system accepts that signature for that key and those
  bytes: with no payload encryption, \<open>create\<close> returns an entry and \<open>verify\<close> returns
  \<open>true\<close> on it. The bytes that \<open>create\<close> signs are the encoding of the snapshot
  \<open>{id, payload, next, refs, clock, v: 2}\<close>, and \<open>verify\<close> hands the identity system
  the signature, the key and the encoding of that same snapshot.
\<close>

theorem create_verify:
  assumes valid: "\<not> nullish id'" "\<not> nullish payload" "isArray (default_arg next0 (JArr []))"
    and clock: "clock = (if truthy (default_arg clock0 JNull) then default_arg clock0 JNull
                         else Clock env (publicKey idn))"
    and snapshot: "snapshot = JObj [(''id'', id'), (''payload'', payload),
                     (''next'', default_arg next0 (JArr [])),
                     (''refs'', default_arg refs0 (JArr [])),
                     (''clock'', clock), (''v'', JNum 2)]"
    and codec: "codec_encode env snapshot = Inr sb"
    and signer: "sign idn sb = Inr sg" "truthy sg" "truthy (publicKey idn)"
    and verifier: "identities_verify ids sg (publicKey idn) sb = Inr True"
  shows "\<exists>e. fst (create env (Some idn) id' payload None clock0 next0 refs0) = Inr e \<and>
             last (snd (create env (Some idn) id' payload None clock0 next0 refs0)) = SignCall sb \<and>
             fst (verify env (Some ids) e) = Inr True \<and>
             snd (verify env (Some ids) e) =
               [BlockEncode snapshot, VerifyCall sg (publicKey idn) sb]"
proof -
  let ?next = "default_arg next0 (JArr [])"
  let ?refs = "default_arg refs0 (JArr [])"
  let ?e = "JObj [(''id'', id'), (''payload'', payload), (''next'', ?next), (''refs'', ?refs),
                  (''clock'', clock), (''v'', JNum 2), (''key'', publicKey idn),
                  (''identity'', hash idn), (''sig'', sg)]"
  have clock_defined: "clock \<noteq> JUndefined"
    using clock by (auto simp: Clock_def dest: truthy_defined)
  have codec': "codec_encode env (JObj [(''id'', id'), (''payload'', payload),
      (''next'', ?next), (''refs'', ?refs), (''clock'', clock), (''v'', JNum 2)]) = Inr sb"
    using codec snapshot by simp
  have ck: "fst (if truthy (default_arg clock0 JNull) then io_return (default_arg clock0 JNull)
       else io_call (ClockCall (publicKey idn)) (Inr (Clock env (publicKey idn)))) = Inr clock"
    using clock by (simp add: fst_io)
  have c: "fst (create env (Some idn) id' payload None clock0 next0 refs0) = Inr ?e"
    using valid codec' signer
    by (simp add: create_def Let_def fst_io_bind ck fst_Block_encode fst_io_call fst_io_return
        js_or_def isArray_defined)
  have t: "last (snd (create env (Some idn) id' payload None clock0 next0 refs0)) = SignCall sb"
    using valid codec' signer
    by (simp add: create_def Let_def snd_io fst_io_bind ck fst_Block_encode fst_io_call
        fst_io_return js_or_def isArray_defined)
  have e: "truthy (isEntry ?e)"
    using valid clock_defined
    by (simp add: isEntry_def js_and_def get_Cons not_nullish isArray_defined default_arg_defined)
  have k: "truthy (get ?e ''key'')" "truthy (get ?e ''sig'')"
    using signer by (simp_all add: get_Cons)
  have v: "fst (verify env (Some ids) ?e) = Inr True"
    using signer verifier codec'
    by (simp add: verify_well_formed [OF e k] js_or_def get_Cons get_Nil)
  have vt: "snd (verify env (Some ids) ?e) =
               [BlockEncode snapshot, VerifyCall sg (publicKey idn) sb]"
    using codec' snapshot
    by (simp add: snd_verify_well_formed [OF e k] js_or_def get_Cons get_Nil)
  from c t v vt show ?thesis by (intro exI [of _ ?e]) simp
qed

theorem create_verify_witness:
  "\<exists>e. fst (create toy_env (Some toy_identity) (JStr ''log1'') (JStr ''hello'') None
              JUndefined JUndefined JUndefined) = Inr e \<and>
       last (snd (create toy_env (Some toy_identity) (JStr ''log1'') (JStr ''hello'') None
              JUndefined JUndefined JUndefined)) =
         SignCall (toy_ser (JObj [(''id'', JStr ''log1''), (''payload'', JStr ''hello''),
                        (''next'', JArr []), (''refs'', JArr []),
                        (''clock'', JObj [(''id'', JStr ''pk''), (''time'', JNum 0)]),
                        (''v'', JNum 2)])) \<and>
       fst (verify toy_env (Some toy_identities) e) = Inr True \<and>
       snd (verify toy_env (Some toy_identities) e) =
         [BlockEncode (JObj [(''id'', JStr ''log1''), (''payload'', JStr ''hello''),
                        (''next'', JArr []), (''refs'', JArr []),
                        (''clock'', JObj [(''id'', JStr ''pk''), (''time'', JNum 0)]),
                        (''v'', JNum 2)]),
          VerifyCall
            (JBytes (83 # toy_ser (JObj [(''id'', JStr ''log1''), (''payload'', JStr ''hello''),
                        (''next'', JArr []), (''refs'', JArr []),
                        (''clock'', JObj [(''id'', JStr ''pk''), (''time'', JNum 0)]),
                        (''v'', JNum 2)])))
            (publicKey toy_identity)
            (toy_ser (JObj [(''id'', JStr ''log1''), (''payload'', JStr ''hello''),
                        (''next'', JArr []), (''refs'', JArr []),
                        (''clock'', JObj [(''id'', JStr ''pk''), (''time'', JNum 0)]),
                        (''v'', JNum 2)]))]"
proof (rule create_verify [where
      clock = "JObj [(''id'', JStr ''pk''), (''time'', JNum 0)]"])
qed (simp_all add: default_arg_def Clock_def toy_env_def toy_identity_def toy_identities_def)

subsection \<open>The predicates\<close>

text \<open>
  Claim C7. For every object, \<open>isEntry\<close> returns \<open>true\<close> if and only if the six fields
  \<open>id\<close>, \<open>next\<close>, \<open>payload\<close>, \<open>v\<close>, \<open>clock\<close> and \<open>refs\<close> are all defined on it (and
  \<open>false\<close> otherwise); the other fields do not matter, in particular removing \<open>key\<close>,
  \<open>sig\<close> and \<open>hash\<close> does not change the result. On any value \<open>x\<close>, the result is
  truthy if and only if \<open>x\<close> is truthy and the six fields are defined on it.
\<close>

theorem isEntry_iff_six_fields:
  "isEntry (JObj ps) =
     JBool (get (JObj ps) ''id'' \<noteq> JUndefined \<and> get (JObj ps) ''next'' \<noteq> JUndefined \<and>
            get (JObj ps) ''payload'' \<noteq> JUndefined \<and> get (JObj ps) ''v'' \<noteq> JUndefined \<and>
            get (JObj ps) ''clock'' \<noteq> JUndefined \<and> get (JObj ps) ''refs'' \<noteq> JUndefined) \<and>
   isEntry (JObj (AList.delete ''key'' (AList.delete ''sig'' (AList.delete ''hash'' ps)))) =
     isEntry (JObj ps) \<and>
   truthy (isEntry x) =
     (truthy x \<and>
      get x ''id'' \<noteq> JUndefined \<and> get x ''next'' \<noteq> JUndefined \<and>
      get x ''payload'' \<noteq> JUndefined \<and> get x ''v'' \<noteq> JUndefined \<and>
      get x ''clock'' \<noteq> JUndefined \<and> get x ''refs'' \<noteq> JUndefined)"
  by (simp add: isEntry_def js_and_def get_delete)

theorem isEntry_iff_six_fields_witness:
  "isEntry (JObj [(''id'', JStr ''log1''), (''next'', JArr []), (''payload'', JNull),
                  (''v'', JNum 2), (''clock'', JNum 0), (''refs'', JArr [])]) = JBool True \<and>
   isEntry (JObj [(''id'', JStr ''log1''), (''next'', JArr []), (''payload'', JUndefined),
                  (''v'', JNum 2), (''clock'', JNum 0), (''refs'', JArr []),
                  (''key'', JStr ''pk''), (''sig'', JStr ''s''), (''hash'', JStr ''zh'')])
     = JBool False"
  using isEntry_iff_six_fields [of "[(''id'', JStr ''log1''), (''next'', JArr []),
           (''payload'', JNull), (''v'', JNum 2), (''clock'', JNum 0), (''refs'', JArr [])]" JNull]
    isEntry_iff_six_fields [of "[(''id'', JStr ''log1''), (''next'', JArr []),
           (''payload'', JUndefined), (''v'', JNum 2), (''clock'', JNum 0), (''refs'', JArr []),
           (''key'', JStr ''pk''), (''sig'', JStr ''s''), (''hash'', JStr ''zh'')]" JNull]
  by (simp add: get_Cons get_Nil)

subsection \<open>Strict equality and isEqual\<close>

text \<open>
  Two arrays with the same content are equal only as one and the same object, and two
  integer literals that round to the same double are equal.
\<close>

lemma strict_eq_examples:
  "strict_eq False (JArr [JNum 1]) (JArr [JNum 1]) = False \<and>
   strict_eq True (JArr [JNum 1]) (JArr [JNum 1]) = True \<and>
   strict_eq same (JNum (2 ^ 53 + 1)) (JNum (2 ^ 53)) = True \<and>
   strict_eq same (JNum (2 ^ 53 + 2)) (JNum (2 ^ 53)) = False \<and>
   strict_eq same (JNum 1) (JNum 2) = False \<and>
   strict_eq same (JStr ''zh'') (JStr ''zh'') = True \<and>
   strict_eq same (JNum 0) (JStr []) = False"
  by (simp add: strict_eq_def to_double_def Let_def)

text \<open>
  Claim C8: \<open>isEqual(a, b)\<close> is \<open>false\<close> whenever an argument is undefined or lacks a
  defined hash, and \<open>true\<close> if and only if both are defined with defined hashes and
  \<open>a.hash\<close> equals \<open>b.hash\<close>; the documentation of the function says the same of its
  result (\<open>@return {boolean} True if a and b are equal, false otherwise\<close>). The code
  does not do this: the chain \<open>a && b && a.hash && a.hash === b.hash\<close> returns the
  operand at which it stops. For two entries whose hash is the empty string, which are
  defined with defined and equal hashes, it returns the empty string and not \<open>true\<close>;
  for an entry without a hash compared with itself, and for an undefined argument, it
  returns \<open>undefined\<close> and not \<open>false\<close>. On truthy hashes that are strings it
  returns the boolean.
\<close>

theorem isEqual_returns_operand:
  "isEqual same (JObj [(''hash'', JStr [])]) (JObj [(''hash'', JStr [])]) = JStr [] \<and>
   isEqual same
     (JObj [(''id'', JStr ''log1''), (''payload'', JStr ''hello''), (''next'', JArr []),
            (''refs'', JArr []), (''clock'', JNum 1), (''v'', JNum 2),
            (''key'', JStr ''pk''), (''identity'', JStr ''zid''), (''sig'', JStr ''s'')])
     (JObj [(''id'', JStr ''log1''), (''payload'', JStr ''hello''), (''next'', JArr []),
            (''refs'', JArr []), (''clock'', JNum 1), (''v'', JNum 2),
            (''key'', JStr ''pk''), (''identity'', JStr ''zid''), (''sig'', JStr ''s'')])
     = JUndefined \<and>
   isEqual same (JObj [(''hash'', JStr ''zh'')]) JUndefined = JUndefined \<and>
   isEqual same (JObj [(''hash'', JStr ''zh'')]) (JObj [(''hash'', JStr ''zh'')]) = JBool True \<and>
   isEqual same (JObj [(''hash'', JStr ''zh'')]) (JObj [(''hash'', JStr ''zg'')]) = JBool False"
  by (simp add: isEqual_def js_and_def get_Cons get_Nil strict_eq_def)

subsection \<open>Validation in create\<close>

lemma create_no_identity:
  "create env None id' payload encryptPayloadFn clock0 next0 refs0 =
     (Inl (Error ''Identity is required, cannot create entry''), [])"
  by (simp add: create_def Let_def io_throw_def)

lemma create_no_id:
  "nullish id' \<Longrightarrow> create env (Some idn) id' payload encryptPayloadFn clock0 next0 refs0 =
     (Inl (Error ''Entry requires an id''), [])"
  by (simp add: create_def Let_def io_throw_def)

lemma create_no_payload:
  "\<not> nullish id' \<Longrightarrow> nullish payload \<Longrightarrow>
   create env (Some idn) id' payload encryptPayloadFn clock0 next0 refs0 =
     (Inl (Error ''Entry requires a payload''), [])"
  by (simp add: create_def Let_def io_throw_def)

lemma create_next_not_array:
  "\<not> nullish id' \<Longrightarrow> \<not> nullish payload \<Longrightarrow> \<not> isArray (default_arg next0 (JArr [])) \<Longrightarrow>
   create env (Some idn) id' payload encryptPayloadFn clock0 next0 refs0 =
     (Inl (Error next_not_array), [])"
  by (simp add: create_def Let_def io_throw_def)

lemma create_valid_foreign_only:
  assumes "\<not> nullish id'" "\<not> nullish payload" "isArray (default_arg next0 (JArr []))"
  shows "foreign_only (fst (create env (Some idn) id' payload encryptPayloadFn clock0 next0 refs0))"
proof -
  have n: "\<not> nullish (default_arg next0 (JArr []))"
    using assms(3) by (simp add: isArray_defined)
  show ?thesis
    unfolding create_def Let_def
    apply (simp only: option.case assms n if_False simp_thms)
    apply (intro foreign_only_bind foreign_only_if foreign_only_case_option
        foreign_only_Block_encode foreign_only_call foreign_only_return)
    done
qed

lemma create_valid_no_own_error:
  assumes "\<not> nullish id'" "\<not> nullish payload" "isArray (default_arg next0 (JArr []))"
  shows "fst (create env (Some idn) id' payload encryptPayloadFn clock0 next0 refs0) \<noteq> Inl (Error m)"
    and "fst (create env (Some idn) id' payload encryptPayloadFn clock0 next0 refs0) \<noteq> Inl (TypeError m)"
  using create_valid_foreign_only [OF assms] by (simp_all add: foreign_only_iff)

text \<open>
  Claim C4. \<open>create\<close> raises one of its four argument errors, before any call to a
  collaborator (the trace of calls is empty), whenever the identity is \<open>null\<close> or
  \<open>undefined\<close>, or the id is, or the payload is, or \<open>next\<close> (after its default
  \<open>[]\<close>) is not an array. When none of these holds, the error branch is not taken:
  \<open>create\<close> raises no error of its own (what can remain is an exception of a
  collaborator).
\<close>

theorem create_validation:
  "(identity = None \<or> nullish id' \<or> nullish payload \<or>
      \<not> isArray (default_arg next0 (JArr []))
    \<longrightarrow> (\<exists>m. m \<in> {''Identity is required, cannot create entry'', ''Entry requires an id'',
                     ''Entry requires a payload'', next_not_array} \<and>
              create env identity id' payload encryptPayloadFn clock0 next0 refs0 =
                (Inl (Error m), []))) \<and>
   (\<not> (identity = None \<or> nullish id' \<or> nullish payload \<or>
        \<not> isArray (default_arg next0 (JArr [])))
    \<longrightarrow> (\<forall>m. fst (create env identity id' payload encryptPayloadFn clock0 next0 refs0)
                 \<noteq> Inl (Error m) \<and>
              fst (create env identity id' payload encryptPayloadFn clock0 next0 refs0)
                 \<noteq> Inl (TypeError m)))"
proof (intro conjI impI)
  let ?c = "create env identity id' payload encryptPayloadFn clock0 next0 refs0"
  let ?M = "{''Identity is required, cannot create entry'', ''Entry requires an id'',
             ''Entry requires a payload'', next_not_array}"
  assume bad: "identity = None \<or> nullish id' \<or> nullish payload \<or>
      \<not> isArray (default_arg next0 (JArr []))"
  have found: "\<exists>m. m \<in> ?M \<and> ?c = (Inl (Error m), [])" if "m \<in> ?M" "?c = (Inl (Error m), [])" for m
    using that by (rule_tac x = m in exI) (rule conjI)
  show "\<exists>m. m \<in> ?M \<and> ?c = (Inl (Error m), [])"
  proof (cases identity)
    case None
    show ?thesis
      by (rule found [of "''Identity is required, cannot create entry''"])
        (simp_all only: None create_no_identity insertI1)
  next
    case (Some idn)
    show ?thesis
    proof (cases "nullish id'")
      case True
      show ?thesis
        by (rule found [of "''Entry requires an id''"])
          (simp_all only: Some create_no_id [OF True] insertI1 insertI2)
    next
      case no_id: False
      show ?thesis
      proof (cases "nullish payload")
        case True
        show ?thesis
          by (rule found [of "''Entry requires a payload''"])
            (simp_all only: Some create_no_payload [OF no_id True] insertI1 insertI2)
      next
        case False
        with bad Some no_id have na: "\<not> isArray (default_arg next0 (JArr []))" by simp
        show ?thesis
          by (rule found [of next_not_array])
            (simp_all only: Some create_next_not_array [OF no_id False na] insertI1 insertI2)
      qed
    qed
  qed
next
  assume ok: "\<not> (identity = None \<or> nullish id' \<or> nullish payload \<or>
        \<not> isArray (default_arg next0 (JArr [])))"
  then obtain idn where "identity = Some idn" by auto
  with ok show "\<forall>m. fst (create env identity id' payload encryptPayloadFn clock0 next0 refs0)
                 \<noteq> Inl (Error m) \<and>
              fst (create env identity id' payload encryptPayloadFn clock0 next0 refs0)
                 \<noteq> Inl (TypeError m)"
    using create_valid_no_own_error by simp
qed

theorem create_validation_witness:
  "(\<exists>m. create toy_env (Some toy_identity) (JStr ''log1'') JNull (Some toy_encrypt)
          JUndefined JUndefined JUndefined = (Inl (Error m), [])) \<and>
   (\<exists>m. create toy_env (Some toy_identity) (JStr ''log1'') (JStr ''hello'') None
          JUndefined (JStr ''zabc'') JUndefined = (Inl (Error m), [])) \<and>
   (\<forall>m. fst (create toy_env (Some toy_identity) (JStr ''log1'') (JStr ''hello'') None
              JUndefined JUndefined JUndefined) \<noteq> Inl (Error m)) \<and>
   snd (create toy_env (Some toy_identity) (JStr ''log1'') (JStr ''hello'') None
          JUndefined JUndefined JUndefined) =
     [ClockCall (JStr ''pk''),
      BlockEncode (JObj [(''id'', JStr ''log1''), (''payload'', JStr ''hello''),
        (''next'', JArr []), (''refs'', JArr []),
        (''clock'', JObj [(''id'', JStr ''pk''), (''time'', JNum 0)]), (''v'', JNum 2)]),
      SignCall (toy_ser (JObj [(''id'', JStr ''log1''), (''payload'', JStr ''hello''),
        (''next'', JArr []), (''refs'', JArr []),
        (''clock'', JObj [(''id'', JStr ''pk''), (''time'', JNum 0)]), (''v'', JNum 2)]))]"
proof (intro conjI)
  show "snd (create toy_env (Some toy_identity) (JStr ''log1'') (JStr ''hello'') None
          JUndefined JUndefined JUndefined) =
     [ClockCall (JStr ''pk''),
      BlockEncode (JObj [(''id'', JStr ''log1''), (''payload'', JStr ''hello''),
        (''next'', JArr []), (''refs'', JArr []),
        (''clock'', JObj [(''id'', JStr ''pk''), (''time'', JNum 0)]), (''v'', JNum 2)]),
      SignCall (toy_ser (JObj [(''id'', JStr ''log1''), (''payload'', JStr ''hello''),
        (''next'', JArr []), (''refs'', JArr []),
        (''clock'', JObj [(''id'', JStr ''pk''), (''time'', JNum 0)]), (''v'', JNum 2)]))]"
    by (simp add: create_def Let_def default_arg_def Clock_def js_or_def snd_io fst_io
        toy_env_def toy_identity_def)
  show "\<exists>m. create toy_env (Some toy_identity) (JStr ''log1'') JNull (Some toy_encrypt)
          JUndefined JUndefined JUndefined = (Inl (Error m), [])"
    using create_validation [of "Some toy_identity" "JStr ''log1''" JNull JUndefined toy_env
      "Some toy_encrypt" JUndefined JUndefined]
    by simp blast
  show "\<exists>m. create toy_env (Some toy_identity) (JStr ''log1'') (JStr ''hello'') None
          JUndefined (JStr ''zabc'') JUndefined = (Inl (Error m), [])"
    using create_validation [of "Some toy_identity" "JStr ''log1''" "JStr ''hello''"
      "JStr ''zabc''" toy_env None JUndefined JUndefined]
    by (simp add: default_arg_def) blast
  show "\<forall>m. fst (create toy_env (Some toy_identity) (JStr ''log1'') (JStr ''hello'') None
              JUndefined JUndefined JUndefined) \<noteq> Inl (Error m)"
    using create_validation [of "Some toy_identity" "JStr ''log1''" "JStr ''hello''" JUndefined
      toy_env None JUndefined JUndefined]
    by (simp add: default_arg_def)
qed


subsection \<open>The errors of verify\<close>






subsection \<open>Decoding\<close>

lemma fst_decrypt_entry_None: "fst (decrypt_entry env bs None) = Inr (bs, None)"
  by (simp add: decrypt_entry_def fst_io)

lemma fst_decrypt_entry_Some:
  "fst (decrypt_entry env bs (Some d)) =
     (case codec_decode env bs of
        Inl x \<Rightarrow> Inl (Error ''Could not decrypt entry'')
      | Inr w \<Rightarrow>
          (case d w of
             Inl x \<Rightarrow> Inl (Error ''Could not decrypt entry'')
           | Inr bs' \<Rightarrow> Inr (bs', Some (hasher_digest env bs))))"
  by (simp add: decrypt_entry_def fst_io split: sum.splits)

lemma fst_read_prop:
  "fst (read_prop x k) = (if nullish x then Inl (TypeError ''Cannot read properties of null or undefined'') else Inr (get x k))"
  by (simp add: read_prop_def fst_io)

lemma fst_write_prop:
  "fst (write_prop x k v) =
     (if is_object x then Inr (JObj (AList.update k v (own_props x)))
      else Inl (TypeError ''Cannot create or set property''))"
  by (simp add: write_prop_def fst_io)

lemma fst_decrypt_payload_None: "fst (decrypt_payload env v None) = Inr v"
  by (simp add: decrypt_payload_def fst_io)

lemma fst_decrypt_payload_Some:
  "fst (decrypt_payload env v (Some g)) =
     (if nullish v then Inl (Error ''Could not decrypt payload'')
      else case g (get v ''payload'') of
        Inl x \<Rightarrow> Inl (Error ''Could not decrypt payload'')
      | Inr pb \<Rightarrow>
          (case codec_decode env pb of
             Inl x \<Rightarrow> Inl (Error ''Could not decrypt payload'')
           | Inr p \<Rightarrow>
               if is_object v
               then Inr (JObj (AList.update ''payload'' p
                         (AList.update ''_payload'' (get v ''payload'') (own_props v))))
               else Inl (Error ''Could not decrypt payload'')))"
  by (simp add: decrypt_payload_def fst_io fst_read_prop fst_write_prop split: sum.splits)

lemma fst_decode:
  "fst (decode env bs dE dP) =
     (case fst (decrypt_entry env bs dE) of
        Inl e \<Rightarrow> Inl e
      | Inr (bs', c) \<Rightarrow>
          (case codec_decode env bs' of
             Inl x \<Rightarrow> Inl (Foreign x)
           | Inr v \<Rightarrow>
               (case fst (decrypt_payload env v dP) of
                  Inl e \<Rightarrow> Inl e
                | Inr v' \<Rightarrow>
                    Inr (JObj (AList.update ''hash''
                      (JStr (cid_toString env
                         (case c of Some c' \<Rightarrow> c' | None \<Rightarrow> hasher_digest env bs')))
                      (own_props v'))))))"
  by (simp add: decode_def fst_io Let_def split: sum.splits prod.splits option.splits)


text \<open>
  Claim C6. \<open>decode\<close> is all-or-nothing. With \<open>decryptEntryFn\<close>, a failure of a step
  of the entry-level decryption (the decoding of the wrapper, the decryption itself)
  raises \<open>Error("Could not decrypt entry")\<close>. With \<open>decryptPayloadFn\<close>, a failure of
  the payload decryption (the entry is \<open>null\<close>, the decryption fails, the decrypted
  bytes do not decode, the entry cannot take a property) raises
  \<open>Error("Could not decrypt payload")\<close>. A failure returns an error and no entry; and
  whenever an entry is returned every step has succeeded and the entry is complete: it
  has the hash (of the wrapper when there is one) and, with \<open>decryptPayloadFn\<close>, the
  decrypted payload in \<open>payload\<close> and the ciphertext in \<open>_payload\<close>.
\<close>

theorem decode_all_or_nothing:
  "(\<forall>d x. dE = Some d \<and> codec_decode env bs = Inl x
      \<longrightarrow> fst (decode env bs dE dP) = Inl (Error ''Could not decrypt entry'')) \<and>
   (\<forall>d w x. dE = Some d \<and> codec_decode env bs = Inr w \<and> d w = Inl x
      \<longrightarrow> fst (decode env bs dE dP) = Inl (Error ''Could not decrypt entry'')) \<and>
   (\<forall>g bs' c v.
      dP = Some g \<and> fst (decrypt_entry env bs dE) = Inr (bs', c) \<and>
      codec_decode env bs' = Inr v \<and>
      (nullish v \<or> (\<exists>x. g (get v ''payload'') = Inl x) \<or>
       (\<exists>pb x. g (get v ''payload'') = Inr pb \<and> codec_decode env pb = Inl x) \<or>
       \<not> is_object v)
      \<longrightarrow> fst (decode env bs dE dP) = Inl (Error ''Could not decrypt payload'')) \<and>
   (\<forall>r. fst (decode env bs dE dP) = Inr r
      \<longrightarrow> (\<exists>bs' c v.
             fst (decrypt_entry env bs dE) = Inr (bs', c) \<and>
             (case dE of
                None \<Rightarrow> bs' = bs \<and> c = None
              | Some d \<Rightarrow>
                  (\<exists>w. codec_decode env bs = Inr w \<and> d w = Inr bs' \<and>
                       c = Some (hasher_digest env bs))) \<and>
             codec_decode env bs' = Inr v \<and>
             get r ''hash'' =
               JStr (cid_toString env
                 (case c of Some c' \<Rightarrow> c' | None \<Rightarrow> hasher_digest env bs')) \<and>
             (case dP of
                None \<Rightarrow> (\<forall>k. k \<noteq> ''hash'' \<longrightarrow> get r k = get v k)
              | Some g \<Rightarrow>
                  (\<exists>pb p. g (get v ''payload'') = Inr pb \<and> codec_decode env pb = Inr p \<and>
                     get r ''payload'' = p \<and> get r ''_payload'' = get v ''payload'' \<and>
                     (\<forall>k. k \<noteq> ''hash'' \<and> k \<noteq> ''payload'' \<and> k \<noteq> ''_payload''
                        \<longrightarrow> get r k = get v k)))))"
proof (intro conjI allI impI)
  fix d x
  assume "dE = Some d \<and> codec_decode env bs = Inl x"
  then show "fst (decode env bs dE dP) = Inl (Error ''Could not decrypt entry'')"
    by (simp add: fst_decode fst_decrypt_entry_Some)
next
  fix d w x
  assume "dE = Some d \<and> codec_decode env bs = Inr w \<and> d w = Inl x"
  then show "fst (decode env bs dE dP) = Inl (Error ''Could not decrypt entry'')"
    by (simp add: fst_decode fst_decrypt_entry_Some)
next
  fix g bs' c v
  assume a: "dP = Some g \<and> fst (decrypt_entry env bs dE) = Inr (bs', c) \<and>
      codec_decode env bs' = Inr v \<and>
      (nullish v \<or> (\<exists>x. g (get v ''payload'') = Inl x) \<or>
       (\<exists>pb x. g (get v ''payload'') = Inr pb \<and> codec_decode env pb = Inl x) \<or>
       \<not> is_object v)"
  then have "fst (decrypt_payload env v (Some g)) = Inl (Error ''Could not decrypt payload'')"
    by (auto simp: fst_decrypt_payload_Some split: sum.splits)
  with a show "fst (decode env bs dE dP) = Inl (Error ''Could not decrypt payload'')"
    by (simp add: fst_decode)
next
  fix r
  assume r: "fst (decode env bs dE dP) = Inr r"
  then obtain bs' c where de: "fst (decrypt_entry env bs dE) = Inr (bs', c)"
    by (auto simp: fst_decode split: sum.splits)
  from r de obtain v where v: "codec_decode env bs' = Inr v"
    by (auto simp: fst_decode split: sum.splits)
  from r de v obtain v' where
    dp: "fst (decrypt_payload env v dP) = Inr v'" and
    res: "r = JObj (AList.update ''hash''
            (JStr (cid_toString env
               (case c of Some c' \<Rightarrow> c' | None \<Rightarrow> hasher_digest env bs')))
            (own_props v'))"
    by (auto simp: fst_decode split: sum.splits)
  have entry: "case dE of
                None \<Rightarrow> bs' = bs \<and> c = None
              | Some d \<Rightarrow>
                  (\<exists>w. codec_decode env bs = Inr w \<and> d w = Inr bs' \<and>
                       c = Some (hasher_digest env bs))"
    using de
    by (cases dE) (auto simp: fst_decrypt_entry_None fst_decrypt_entry_Some split: sum.splits)
  have hash: "get r ''hash'' =
               JStr (cid_toString env
                 (case c of Some c' \<Rightarrow> c' | None \<Rightarrow> hasher_digest env bs'))"
    by (simp add: res get_update)
  have payload: "case dP of
                None \<Rightarrow> (\<forall>k. k \<noteq> ''hash'' \<longrightarrow> get r k = get v k)
              | Some g \<Rightarrow>
                  (\<exists>pb p. g (get v ''payload'') = Inr pb \<and> codec_decode env pb = Inr p \<and>
                     get r ''payload'' = p \<and> get r ''_payload'' = get v ''payload'' \<and>
                     (\<forall>k. k \<noteq> ''hash'' \<and> k \<noteq> ''payload'' \<and> k \<noteq> ''_payload''
                        \<longrightarrow> get r k = get v k))"
  proof (cases dP)
    case None
    with dp have "v' = v" by (simp add: fst_decrypt_payload_None)
    with None show ?thesis by (simp add: res get_update get_own_props)
  next
    case (Some g)
    with dp obtain pb p where
      "g (get v ''payload'') = Inr pb" "codec_decode env pb = Inr p"
      "v' = JObj (AList.update ''payload'' p
                         (AList.update ''_payload'' (get v ''payload'') (own_props v)))"
      by (auto simp: fst_decrypt_payload_Some split: sum.splits if_splits)
    with Some show ?thesis by (simp add: res get_update get_own_props)
  qed
  from de entry v hash payload
  show "\<exists>bs' c v.
             fst (decrypt_entry env bs dE) = Inr (bs', c) \<and>
             (case dE of
                None \<Rightarrow> bs' = bs \<and> c = None
              | Some d \<Rightarrow>
                  (\<exists>w. codec_decode env bs = Inr w \<and> d w = Inr bs' \<and>
                       c = Some (hasher_digest env bs))) \<and>
             codec_decode env bs' = Inr v \<and>
             get r ''hash'' =
               JStr (cid_toString env
                 (case c of Some c' \<Rightarrow> c' | None \<Rightarrow> hasher_digest env bs')) \<and>
             (case dP of
                None \<Rightarrow> (\<forall>k. k \<noteq> ''hash'' \<longrightarrow> get r k = get v k)
              | Some g \<Rightarrow>
                  (\<exists>pb p. g (get v ''payload'') = Inr pb \<and> codec_decode env pb = Inr p \<and>
                     get r ''payload'' = p \<and> get r ''_payload'' = get v ''payload'' \<and>
                     (\<forall>k. k \<noteq> ''hash'' \<and> k \<noteq> ''payload'' \<and> k \<noteq> ''_payload''
                        \<longrightarrow> get r k = get v k)))"
    by (intro exI conjI)
qed


theorem decode_all_or_nothing_witness:
  "fst (decode toy_env [] (Some toy_decrypt) None) = Inl (Error ''Could not decrypt entry'') \<and>
   fst (decode toy_env [1] (Some toy_decrypt) None) = Inl (Error ''Could not decrypt entry'') \<and>
   fst (decode toy_env [11] None (Some toy_decrypt)) = Inl (Error ''Could not decrypt payload'') \<and>
   (\<exists>v. codec_decode toy_env [11] = Inr v \<and>
        (\<forall>k. k \<noteq> ''hash'' \<longrightarrow>
           get (JObj [(''hash'', JStr (cid_toString toy_env (hasher_digest toy_env [11])))]) k
             = get v k))"
proof (intro conjI)
  show "fst (decode toy_env [] (Some toy_decrypt) None) = Inl (Error ''Could not decrypt entry'')"
    by (rule decode_all_or_nothing [THEN conjunct1, rule_format, where d = toy_decrypt])
      (simp add: toy_env_def toy_decode_def)
  show "fst (decode toy_env [1] (Some toy_decrypt) None) = Inl (Error ''Could not decrypt entry'')"
    by (rule decode_all_or_nothing [THEN conjunct2, THEN conjunct1, rule_format,
          where d = toy_decrypt and w = JNull])
      (simp add: toy_env_def toy_decode_def toy_decrypt_def)
  show "fst (decode toy_env [11] None (Some toy_decrypt)) =
      Inl (Error ''Could not decrypt payload'')"
    by (rule decode_all_or_nothing [THEN conjunct2, THEN conjunct2, THEN conjunct1, rule_format,
          where g = toy_decrypt and bs' = "[11]" and c = None and v = "JObj []"])
      (simp add: toy_env_def toy_decode_def toy_decrypt_def fst_decrypt_entry_None get_Nil)
  have r: "fst (decode toy_env [11] None None) =
      Inr (JObj [(''hash'', JStr (cid_toString toy_env (hasher_digest toy_env [11])))])"
    by (simp add: fst_decode fst_decrypt_entry_None fst_decrypt_payload_None toy_env_def
        toy_decode_def)
  from decode_all_or_nothing [THEN conjunct2, THEN conjunct2, THEN conjunct2, rule_format, OF r]
  show "\<exists>v. codec_decode toy_env [11] = Inr v \<and>
        (\<forall>k. k \<noteq> ''hash'' \<longrightarrow>
           get (JObj [(''hash'', JStr (cid_toString toy_env (hasher_digest toy_env [11])))]) k
             = get v k)"
    by auto
qed

text \<open>
  Claim C10. \<open>decode\<close> does not validate the decoded value: when the bytes decode to
  an object on which one of \<open>id\<close>, \<open>next\<close>, \<open>payload\<close>, \<open>v\<close>, \<open>clock\<close>, \<open>refs\<close> is
  undefined, \<open>decode\<close> (without decryption) succeeds and returns that object with a
  \<open>hash\<close>, and \<open>isEntry\<close> is \<open>false\<close> on what it returns.
\<close>

theorem decode_no_validation:
  assumes "codec_decode env bs = Inr (JObj ps)"
    and "k \<in> {''id'', ''next'', ''payload'', ''v'', ''clock'', ''refs''}"
    and "get (JObj ps) k = JUndefined"
  shows "\<exists>r. fst (decode env bs None None) = Inr r \<and>
           get r ''hash'' = JStr (cid_toString env (hasher_digest env bs)) \<and>
           (\<forall>k'. k' \<noteq> ''hash'' \<longrightarrow> get r k' = get (JObj ps) k') \<and>
           isEntry r = JBool False"
proof -
  let ?r = "JObj (AList.update ''hash'' (JStr (cid_toString env (hasher_digest env bs))) ps)"
  have d: "fst (decode env bs None None) = Inr ?r"
    using assms(1) by (simp add: fst_decode fst_decrypt_entry_None fst_decrypt_payload_None)
  have "isEntry ?r = JBool False"
    using assms(2,3) by (auto simp: isEntry_def js_and_def get_update)
  with d show ?thesis by (simp add: get_update)
qed

theorem decode_no_validation_witness:
  "\<exists>r. fst (decode toy_env (toy_ser (JObj [(''v'', JNum 2)])) None None) = Inr r \<and>
       get r ''hash'' = JStr (cid_toString toy_env
          (hasher_digest toy_env (toy_ser (JObj [(''v'', JNum 2)])))) \<and>
       (\<forall>k'. k' \<noteq> ''hash'' \<longrightarrow> get r k' = get (JObj [(''v'', JNum 2)]) k') \<and>
       isEntry r = JBool False"
  by (rule decode_no_validation [where k = "''payload''"])
    (simp_all add: toy_env_def toy_decode_def toy_ser_string_def char_of_def bit_0 bit_Suc
      get_Cons get_Nil)


subsection \<open>Encoding\<close>

lemma fst_encode_None:
  "fst (encode env entry None ep) =
     (case codec_encode env (encode_value entry ep) of
        Inl x \<Rightarrow> Inl (Foreign x)
      | Inr bs \<Rightarrow> Inr \<lparr>enc_hash = cid_toString env (hasher_digest env bs), enc_bytes = bs\<rparr>)"
  by (simp add: encode_def fst_io split: sum.splits)

lemma snd_encode:
  "snd (encode env entry eE ep) =
     BlockEncode (encode_value entry ep) #
       (case codec_encode env (encode_value entry ep) of
          Inl x \<Rightarrow> []
        | Inr bs \<Rightarrow>
            (case eE of
               None \<Rightarrow> []
             | Some h \<Rightarrow>
                 EncryptEntryCall bs #
                   (case h bs of Inl x \<Rightarrow> [] | Inr c \<Rightarrow> [BlockEncode (JBytes c)])))"
  by (simp add: encode_def snd_io_bind snd_io_call snd_io_return snd_Block_encode fst_io
      split: sum.splits option.splits prod.splits)

lemma encode_value_payload:
  "encode_value entry (Some f) =
     JObj (AList.delete ''hash'' (AList.delete ''_payload''
       (AList.update ''payload'' (get entry ''_payload'') (own_props entry))))"
  by (simp add: encode_value_def Let_def get_own_props)

text \<open>
  Claim C9, as stated, fails with a codec that refuses \<open>undefined\<close>: the object handed
  to it has \<open>payload\<close> set to \<open>undefined\<close>, the codec throws, and \<open>encode\<close> raises that
  exception. The payload is then not silently dropped from the wire bytes: the call is
  rejected and there are no bytes.
\<close>

theorem encode_undefined_rejected_counterexample:
  "get (JObj [(''id'', JStr ''log1''), (''payload'', JStr ''hello''), (''next'', JArr []),
              (''refs'', JArr []), (''clock'', JNum 1), (''v'', JNum 2),
              (''key'', JStr ''pk''), (''identity'', JStr ''zid''), (''sig'', JStr ''s'')])
       ''_payload'' = JUndefined \<and>
   encode toy_strict_env
     (JObj [(''id'', JStr ''log1''), (''payload'', JStr ''hello''), (''next'', JArr []),
            (''refs'', JArr []), (''clock'', JNum 1), (''v'', JNum 2),
            (''key'', JStr ''pk''), (''identity'', JStr ''zid''), (''sig'', JStr ''s'')])
     None (Some toy_encrypt) =
     (Inl (Foreign ''undefined is not supported''),
      [BlockEncode
         (JObj [(''id'', JStr ''log1''), (''payload'', JUndefined), (''next'', JArr []),
                (''refs'', JArr []), (''clock'', JNum 1), (''v'', JNum 2),
                (''key'', JStr ''pk''), (''identity'', JStr ''zid''), (''sig'', JStr ''s'')])])"
  by (simp add: prod_eq_iff fst_encode_None snd_encode encode_value_payload get_Cons get_Nil
      toy_env_def toy_strict_env_def)


text \<open>
  Claim C9, amended. When \<open>encode\<close> is called with an \<open>encryptPayloadFn\<close> on an entry
  without a \<open>_payload\<close>, the object handed to the codec (the first call of the trace)
  has its \<open>payload\<close> property set to \<open>undefined\<close>: the payload of the entry is not
  encrypted (\<open>encryptPayloadFn\<close> is never called), not checked by \<open>encode\<close>, and not
  handed to the codec (the object does not depend on it). What follows is the codec's
  doing: \<open>encode\<close> returns the bytes of a codec that accepts the object, without the
  payload, and raises the exception of a codec that refuses it.
\<close>

theorem encode_drops_payload:
  assumes "get entry ''_payload'' = JUndefined"
  shows "map_of (own_props (encode_value entry (Some f))) ''payload'' = Some JUndefined \<and>
         get (encode_value entry (Some f)) ''payload'' = JUndefined \<and>
         (\<exists>rest. snd (encode env entry eE (Some f)) =
            BlockEncode (encode_value entry (Some f)) # rest) \<and>
         (\<forall>bs. EncryptPayloadCall bs \<notin> set (snd (encode env entry eE (Some f)))) \<and>
         fst (encode env entry None (Some f)) =
           (case codec_encode env (encode_value entry (Some f)) of
              Inl x \<Rightarrow> Inl (Foreign x)
            | Inr bs \<Rightarrow>
                Inr \<lparr>enc_hash = cid_toString env (hasher_digest env bs), enc_bytes = bs\<rparr>) \<and>
         encode_value (JObj (AList.update ''payload'' p (own_props entry))) (Some f) =
           encode_value entry (Some f)"
proof (intro conjI)
  show "map_of (own_props (encode_value entry (Some f))) ''payload'' = Some JUndefined"
    using assms by (simp add: encode_value_payload delete_conv' update_conv')
  then show "get (encode_value entry (Some f)) ''payload'' = JUndefined"
    by (simp add: get_def)
  show "\<exists>rest. snd (encode env entry eE (Some f)) =
            BlockEncode (encode_value entry (Some f)) # rest"
    by (simp add: snd_encode)
  show "\<forall>bs. EncryptPayloadCall bs \<notin> set (snd (encode env entry eE (Some f)))"
    by (simp add: snd_encode split: sum.splits option.splits)
  show "fst (encode env entry None (Some f)) =
           (case codec_encode env (encode_value entry (Some f)) of
              Inl x \<Rightarrow> Inl (Foreign x)
            | Inr bs \<Rightarrow>
                Inr \<lparr>enc_hash = cid_toString env (hasher_digest env bs), enc_bytes = bs\<rparr>)"
    by (rule fst_encode_None)
  show "encode_value (JObj (AList.update ''payload'' p (own_props entry))) (Some f) =
           encode_value entry (Some f)"
    by (simp add: encode_value_payload get_update get_own_props)
qed

theorem encode_drops_payload_witness:
  "get (encode_value (JObj [(''id'', JStr ''log1''), (''payload'', JStr ''hello''),
          (''next'', JArr []), (''refs'', JArr []), (''clock'', JNum 1), (''v'', JNum 2),
          (''key'', JStr ''pk''), (''identity'', JStr ''zid''), (''sig'', JStr ''s'')])
        (Some toy_encrypt)) ''payload'' = JUndefined \<and>
   snd (encode toy_env (JObj [(''id'', JStr ''log1''), (''payload'', JStr ''hello''),
          (''next'', JArr []), (''refs'', JArr []), (''clock'', JNum 1), (''v'', JNum 2),
          (''key'', JStr ''pk''), (''identity'', JStr ''zid''), (''sig'', JStr ''s'')])
        None (Some toy_encrypt)) =
     [BlockEncode (JObj [(''id'', JStr ''log1''), (''payload'', JUndefined),
          (''next'', JArr []), (''refs'', JArr []), (''clock'', JNum 1), (''v'', JNum 2),
          (''key'', JStr ''pk''), (''identity'', JStr ''zid''), (''sig'', JStr ''s'')])]"
  using encode_drops_payload [of "JObj [(''id'', JStr ''log1''), (''payload'', JStr ''hello''),
          (''next'', JArr []), (''refs'', JArr []), (''clock'', JNum 1), (''v'', JNum 2),
          (''key'', JStr ''pk''), (''identity'', JStr ''zid''), (''sig'', JStr ''s'')]"
        toy_encrypt toy_env None]
  by (simp add: get_Cons get_Nil snd_encode toy_env_def encode_value_payload)

subsection \<open>Round trips\<close>

text \<open>
  Claim C3. Without encryption functions, \<open>decode(encode(e).bytes)\<close> agrees with \<open>e\<close>
  on \<open>id\<close>, \<open>payload\<close>, \<open>next\<close>, \<open>refs\<close>, \<open>clock\<close>, \<open>v\<close>, \<open>key\<close>, \<open>identity\<close> and
  \<open>sig\<close>, and its \<open>hash\<close> is the hash that \<open>encode(e)\<close> returns. The codec is taken
  at the object that \<open>encode\<close> hands to it: it encodes the object, and decodes the
  bytes to an object with the same properties (in any order).
\<close>

theorem encode_decode_roundtrip:
  assumes enc: "codec_encode env (encode_value e None) = Inr wb"
    and dec: "codec_decode env wb = Inr (JObj ps)"
    and same: "\<And>k. get (JObj ps) k = get (encode_value e None) k"
  shows "\<exists>r d. fst (encode env e None None) = Inr r \<and>
           fst (decode env (enc_bytes r) None None) = Inr d \<and>
           get d ''id'' = get e ''id'' \<and> get d ''payload'' = get e ''payload'' \<and>
           get d ''next'' = get e ''next'' \<and> get d ''refs'' = get e ''refs'' \<and>
           get d ''clock'' = get e ''clock'' \<and> get d ''v'' = get e ''v'' \<and>
           get d ''key'' = get e ''key'' \<and> get d ''identity'' = get e ''identity'' \<and>
           get d ''sig'' = get e ''sig'' \<and>
           get d ''hash'' = JStr (enc_hash r)"
proof -
  let ?h = "cid_toString env (hasher_digest env wb)"
  let ?r = "\<lparr>enc_hash = ?h, enc_bytes = wb\<rparr>"
  let ?d = "JObj (AList.update ''hash'' (JStr ?h) ps)"
  have r: "fst (encode env e None None) = Inr ?r"
    using enc by (simp add: fst_encode_None)
  have d: "fst (decode env (enc_bytes ?r) None None) = Inr ?d"
    using dec by (simp add: fst_decode fst_decrypt_entry_None fst_decrypt_payload_None)
  have kept: "get ?d k = get e k" if "k \<noteq> ''hash''" "k \<noteq> ''_payload''" for k
    using that same [of k]
    by (simp add: get_update encode_value_def Let_def get_delete get_own_props)
  have "get ?d ''hash'' = JStr (enc_hash ?r)"
    by (simp add: get_update)
  with r d kept show ?thesis
    by (intro exI [of _ ?r] exI [of _ ?d]) simp
qed

theorem encode_decode_roundtrip_witness:
  "\<exists>r d. fst (encode toy_env
             (JObj [(''id'', JStr ''log1''), (''payload'', JStr ''hello''), (''next'', JArr []),
                    (''refs'', JArr [JStr ''zabc'']), (''clock'', JNum 1), (''v'', JNum 2),
                    (''key'', JStr ''pk''), (''identity'', JStr ''zid''), (''sig'', JStr ''s''),
                    (''hash'', JStr ''zold'')])
             None None) = Inr r \<and>
         fst (decode toy_env (enc_bytes r) None None) = Inr d \<and>
         get d ''id'' = JStr ''log1'' \<and> get d ''payload'' = JStr ''hello'' \<and>
         get d ''refs'' = JArr [JStr ''zabc''] \<and> get d ''sig'' = JStr ''s'' \<and>
         get d ''hash'' = JStr (enc_hash r)"
proof -
  let ?e = "JObj [(''id'', JStr ''log1''), (''payload'', JStr ''hello''), (''next'', JArr []),
                  (''refs'', JArr [JStr ''zabc'']), (''clock'', JNum 1), (''v'', JNum 2),
                  (''key'', JStr ''pk''), (''identity'', JStr ''zid''), (''sig'', JStr ''s''),
                  (''hash'', JStr ''zold'')]"
  let ?ps = "[(''id'', JStr ''log1''), (''payload'', JStr ''hello''), (''next'', JArr []),
              (''refs'', JArr [JStr ''zabc'']), (''clock'', JNum 1), (''v'', JNum 2),
              (''key'', JStr ''pk''), (''identity'', JStr ''zid''), (''sig'', JStr ''s'')]"
  have ev: "encode_value ?e None = JObj ?ps"
    by (simp add: encode_value_def)
  have enc: "codec_encode toy_env (encode_value ?e None) = Inr (toy_ser (JObj ?ps))"
    by (simp add: ev toy_env_def)
  have dec: "codec_decode toy_env (toy_ser (JObj ?ps)) = Inr (JObj ?ps)"
    by (simp add: toy_env_def toy_decode_def toy_ser_string_def char_of_def bit_0 bit_Suc)
  have same: "get (JObj ?ps) k = get (encode_value ?e None) k" for k
    by (simp add: ev)
  from encode_decode_roundtrip [OF enc dec same] show ?thesis
    by (auto simp: get_Cons get_Nil)
qed


text \<open>
  Claim C2, as stated, fails for an entry created with \<open>encryptPayloadFn\<close> by an
  identity whose public key is the empty string: \<open>create\<close> returns the entry, with the
  ciphertext in \<open>_payload\<close>, and \<open>verify\<close> raises \<open>"Entry doesn't have a key"\<close> on it,
  even against an identity system that accepts every signature.
\<close>

theorem payload_encryption_keyless_counterexample:
  "fst (create toy_env (Some toy_keyless_identity) (JStr ''log1'') (JStr ''hello'')
          (Some toy_encrypt) (JNum 7) JUndefined JUndefined) =
     Inr (JObj [(''id'', JStr ''log1''), (''payload'', JStr ''hello''), (''next'', JArr []),
                (''refs'', JArr []), (''clock'', JNum 7), (''v'', JNum 2),
                (''key'', JStr []), (''identity'', JStr ''zid''),
                (''sig'', JBytes (83 # toy_ser
                   (JObj [(''id'', JStr ''log1''),
                          (''payload'', JBytes (map (\<lambda>b. b + 1) (toy_ser (JStr ''hello'')))),
                          (''next'', JArr []), (''refs'', JArr []),
                          (''clock'', JNum 7), (''v'', JNum 2)]))),
                (''_payload'', JBytes (map (\<lambda>b. b + 1) (toy_ser (JStr ''hello''))))]) \<and>
   fst (verify toy_env (Some toy_open_identities)
     (JObj [(''id'', JStr ''log1''), (''payload'', JStr ''hello''), (''next'', JArr []),
                (''refs'', JArr []), (''clock'', JNum 7), (''v'', JNum 2),
                (''key'', JStr []), (''identity'', JStr ''zid''),
                (''sig'', JBytes (83 # toy_ser
                   (JObj [(''id'', JStr ''log1''),
                          (''payload'', JBytes (map (\<lambda>b. b + 1) (toy_ser (JStr ''hello'')))),
                          (''next'', JArr []), (''refs'', JArr []),
                          (''clock'', JNum 7), (''v'', JNum 2)]))),
                (''_payload'', JBytes (map (\<lambda>b. b + 1) (toy_ser (JStr ''hello''))))])) =
     Inl (Error ''Entry doesn't have a key'')"
  by (simp add: create_def verify_def Let_def default_arg_def js_or_def js_and_def
      isEntry_def get_Cons get_Nil fst_io toy_env_def toy_keyless_identity_def
      toy_open_identities_def toy_encrypt_def)

text \<open>
  Claim C2, amended. For an entry created with \<open>encryptPayloadFn\<close> and a matching
  \<open>decryptPayloadFn\<close>, such that the codec encodes the payload, the signing snapshot
  and the wire object and decodes the bytes of the first and of the last back, the
  identity's public key is truthy, its signer returns a truthy signature, and the
  identity system accepts that signature for that key and the signed bytes:
  \<open>decode(encode(e, null, encryptPayloadFn).bytes, null, decryptPayloadFn)\<close> returns an
  entry whose \<open>payload\<close> is the original plaintext, and \<open>verify\<close> returns \<open>true\<close> on
  the created and on the decoded entry. Both carry the ciphertext in \<open>_payload\<close>, and
  on both \<open>verify\<close> encodes the snapshot whose \<open>payload\<close> is that ciphertext, the one
  \<open>create\<close> signed, and hands the identity system the signature, the key and those
  bytes.
\<close>

theorem payload_encryption_roundtrip:
  assumes valid: "\<not> nullish id'" "\<not> nullish payload" "isArray next'"
      "next' = default_arg next0 (JArr [])" "refs = default_arg refs0 (JArr [])"
    and clock: "clock = (if truthy (default_arg clock0 JNull) then default_arg clock0 JNull
                         else Clock env (publicKey idn))"
    and encrypt: "codec_encode env payload = Inr pb" "f pb = Inr c"
    and snapshot: "snapshot = JObj [(''id'', id'), (''payload'', JBytes c), (''next'', next'),
                     (''refs'', refs), (''clock'', clock), (''v'', JNum 2)]"
      "codec_encode env snapshot = Inr sb"
    and signer: "sign idn sb = Inr sg" "truthy sg" "truthy (publicKey idn)"
    and verifier: "identities_verify ids sg (publicKey idn) sb = Inr True"
    and wire: "wire = JObj [(''id'', id'), (''payload'', JBytes c), (''next'', next'),
                 (''refs'', refs), (''clock'', clock), (''v'', JNum 2),
                 (''key'', publicKey idn), (''identity'', hash idn), (''sig'', sg)]"
      "codec_encode env wire = Inr wb"
      "codec_decode env wb = Inr (JObj ps)"
      "\<And>k. get (JObj ps) k = get wire k"
    and decrypt: "g (JBytes c) = Inr pb" "codec_decode env pb = Inr payload"
  shows "\<exists>e r d.
           fst (create env (Some idn) id' payload (Some f) clock0 next0 refs0) = Inr e \<and>
           last (snd (create env (Some idn) id' payload (Some f) clock0 next0 refs0)) =
             SignCall sb \<and>
           get e ''payload'' = payload \<and> get e ''_payload'' = JBytes c \<and>
           fst (encode env e None (Some f)) = Inr r \<and>
           fst (decode env (enc_bytes r) None (Some g)) = Inr d \<and>
           get d ''payload'' = payload \<and> get d ''_payload'' = JBytes c \<and>
           fst (verify env (Some ids) e) = Inr True \<and>
           snd (verify env (Some ids) e) =
             [BlockEncode snapshot, VerifyCall sg (publicKey idn) sb] \<and>
           fst (verify env (Some ids) d) = Inr True \<and>
           snd (verify env (Some ids) d) =
             [BlockEncode snapshot, VerifyCall sg (publicKey idn) sb]"
proof -
  let ?e = "JObj [(''id'', id'), (''payload'', payload), (''next'', next'), (''refs'', refs),
                  (''clock'', clock), (''v'', JNum 2), (''key'', publicKey idn),
                  (''identity'', hash idn), (''sig'', sg), (''_payload'', JBytes c)]"
  let ?h = "cid_toString env (hasher_digest env wb)"
  let ?r = "\<lparr>enc_hash = ?h, enc_bytes = wb\<rparr>"
  let ?d = "JObj (AList.update ''hash'' (JStr ?h)
              (AList.update ''payload'' payload (AList.update ''_payload'' (JBytes c) ps)))"
  have defined: "id' \<noteq> JUndefined" "payload \<noteq> JUndefined" "next' \<noteq> JUndefined"
    "refs \<noteq> JUndefined" "clock \<noteq> JUndefined"
    using valid clock
    by (auto simp: Clock_def default_arg_def dest: truthy_defined not_nullish isArray_defined)
  have snap: "codec_encode env (JObj [(''id'', id'), (''payload'', JBytes c), (''next'', next'),
                     (''refs'', refs), (''clock'', clock), (''v'', JNum 2)]) = Inr sb"
    using snapshot by simp
  have ck: "fst (if truthy (default_arg clock0 JNull) then io_return (default_arg clock0 JNull)
       else io_call (ClockCall (publicKey idn)) (Inr (Clock env (publicKey idn)))) = Inr clock"
    using clock by (simp add: fst_io)
  have c: "fst (create env (Some idn) id' payload (Some f) clock0 next0 refs0) = Inr ?e"
    using valid(1,2,3) valid(4,5) [symmetric] encrypt snap signer
    by (simp add: create_def Let_def fst_io_bind ck fst_Block_encode fst_io_call fst_io_return
        js_or_def isArray_defined)
  have t: "last (snd (create env (Some idn) id' payload (Some f) clock0 next0 refs0)) =
      SignCall sb"
    using valid(1,2,3) valid(4,5) [symmetric] encrypt snap signer
    by (simp add: create_def Let_def snd_io fst_io_bind ck fst_Block_encode fst_io_call
        fst_io_return js_or_def isArray_defined)
  have ev: "encode_value ?e (Some f) = wire"
    by (simp add: encode_value_def wire(1) get_Cons)
  have r: "fst (encode env ?e None (Some f)) = Inr ?r"
    by (simp add: fst_encode_None ev wire(2))
  have cipher: "get (JObj ps) ''payload'' = JBytes c"
    by (simp add: wire(4) wire(1) get_Cons)
  have d: "fst (decode env (enc_bytes ?r) None (Some g)) = Inr ?d"
    using wire(3) decrypt cipher
    by (simp add: fst_decode fst_decrypt_entry_None fst_decrypt_payload_Some)
  have get_d: "get ?d k =
      (if k = ''hash'' then JStr ?h else if k = ''payload'' then payload
       else if k = ''_payload'' then JBytes c else get wire k)" for k
    by (simp add: get_update wire(4))
  have e_entry: "truthy (isEntry ?e)"
    using defined by (simp add: isEntry_def js_and_def get_Cons)
  have e_key: "truthy (get ?e ''key'')" "truthy (get ?e ''sig'')"
    using signer by (simp_all add: get_Cons)
  have ve: "fst (verify env (Some ids) ?e) = Inr True"
    using signer verifier snap
    by (simp add: verify_well_formed [OF e_entry e_key] get_Cons get_Nil js_or_def)
  have vte: "snd (verify env (Some ids) ?e) =
      [BlockEncode snapshot, VerifyCall sg (publicKey idn) sb]"
    using snap snapshot(1)
    by (simp add: snd_verify_well_formed [OF e_entry e_key] get_Cons get_Nil js_or_def)
  have d_entry: "truthy (isEntry ?d)"
    using defined by (simp add: isEntry_def js_and_def get_d wire(1) get_Cons)
  have d_key: "truthy (get ?d ''key'')" "truthy (get ?d ''sig'')"
    using signer by (simp_all add: get_d wire(1) get_Cons)
  have vd: "fst (verify env (Some ids) ?d) = Inr True"
    using signer verifier snap
    by (simp add: verify_well_formed [OF d_entry d_key] get_d wire(1) get_Cons js_or_def)
  have vtd: "snd (verify env (Some ids) ?d) =
      [BlockEncode snapshot, VerifyCall sg (publicKey idn) sb]"
    using snap snapshot(1)
    by (simp add: snd_verify_well_formed [OF d_entry d_key] get_d wire(1) get_Cons js_or_def)
  have "get ?e ''payload'' = payload" "get ?e ''_payload'' = JBytes c"
    "get ?d ''payload'' = payload" "get ?d ''_payload'' = JBytes c"
    by (simp_all add: get_d get_Cons)
  with c t r d ve vd vte vtd show ?thesis
    by (intro exI [of _ ?e] exI [of _ ?r] exI [of _ ?d]) simp
qed



theorem payload_encryption_roundtrip_witness:
  "\<exists>e r d.
     fst (create toy_env (Some toy_identity) (JStr ''log1'') (JStr ''hello'') (Some toy_encrypt)
            JUndefined JUndefined JUndefined) = Inr e \<and>
     last (snd (create toy_env (Some toy_identity) (JStr ''log1'') (JStr ''hello'')
            (Some toy_encrypt) JUndefined JUndefined JUndefined)) =
       SignCall (toy_ser (JObj [(''id'', JStr ''log1''),
          (''payload'', JBytes (map (\<lambda>b. b + 1) (toy_ser (JStr ''hello'')))),
          (''next'', JArr []), (''refs'', JArr []),
          (''clock'', JObj [(''id'', JStr ''pk''), (''time'', JNum 0)]), (''v'', JNum 2)])) \<and>
     get e ''payload'' = JStr ''hello'' \<and>
     get e ''_payload'' = JBytes (map (\<lambda>b. b + 1) (toy_ser (JStr ''hello''))) \<and>
     fst (encode toy_env e None (Some toy_encrypt)) = Inr r \<and>
     fst (decode toy_env (enc_bytes r) None (Some toy_decrypt)) = Inr d \<and>
     get d ''payload'' = JStr ''hello'' \<and>
     get d ''_payload'' = JBytes (map (\<lambda>b. b + 1) (toy_ser (JStr ''hello''))) \<and>
     fst (verify toy_env (Some toy_identities) e) = Inr True \<and>
     snd (verify toy_env (Some toy_identities) e) =
       [BlockEncode (JObj [(''id'', JStr ''log1''),
          (''payload'', JBytes (map (\<lambda>b. b + 1) (toy_ser (JStr ''hello'')))),
          (''next'', JArr []), (''refs'', JArr []),
          (''clock'', JObj [(''id'', JStr ''pk''), (''time'', JNum 0)]), (''v'', JNum 2)]),
        VerifyCall
          (JBytes (83 # toy_ser (JObj [(''id'', JStr ''log1''),
             (''payload'', JBytes (map (\<lambda>b. b + 1) (toy_ser (JStr ''hello'')))),
             (''next'', JArr []), (''refs'', JArr []),
             (''clock'', JObj [(''id'', JStr ''pk''), (''time'', JNum 0)]), (''v'', JNum 2)])))
          (publicKey toy_identity)
          (toy_ser (JObj [(''id'', JStr ''log1''),
             (''payload'', JBytes (map (\<lambda>b. b + 1) (toy_ser (JStr ''hello'')))),
             (''next'', JArr []), (''refs'', JArr []),
             (''clock'', JObj [(''id'', JStr ''pk''), (''time'', JNum 0)]), (''v'', JNum 2)]))] \<and>
     fst (verify toy_env (Some toy_identities) d) = Inr True \<and>
     snd (verify toy_env (Some toy_identities) d) =
       [BlockEncode (JObj [(''id'', JStr ''log1''),
          (''payload'', JBytes (map (\<lambda>b. b + 1) (toy_ser (JStr ''hello'')))),
          (''next'', JArr []), (''refs'', JArr []),
          (''clock'', JObj [(''id'', JStr ''pk''), (''time'', JNum 0)]), (''v'', JNum 2)]),
        VerifyCall
          (JBytes (83 # toy_ser (JObj [(''id'', JStr ''log1''),
             (''payload'', JBytes (map (\<lambda>b. b + 1) (toy_ser (JStr ''hello'')))),
             (''next'', JArr []), (''refs'', JArr []),
             (''clock'', JObj [(''id'', JStr ''pk''), (''time'', JNum 0)]), (''v'', JNum 2)])))
          (publicKey toy_identity)
          (toy_ser (JObj [(''id'', JStr ''log1''),
             (''payload'', JBytes (map (\<lambda>b. b + 1) (toy_ser (JStr ''hello'')))),
             (''next'', JArr []), (''refs'', JArr []),
             (''clock'', JObj [(''id'', JStr ''pk''), (''time'', JNum 0)]), (''v'', JNum 2)]))]"
proof -
  let ?c = "map (\<lambda>b. b + 1) (toy_ser (JStr ''hello''))"
  let ?clock = "JObj [(''id'', JStr ''pk''), (''time'', JNum 0)]"
  let ?snapshot = "JObj [(''id'', JStr ''log1''), (''payload'', JBytes ?c), (''next'', JArr []),
                         (''refs'', JArr []), (''clock'', ?clock), (''v'', JNum 2)]"
  let ?sg = "JBytes (83 # toy_ser ?snapshot)"
  let ?ps = "[(''id'', JStr ''log1''), (''payload'', JBytes ?c), (''next'', JArr []),
              (''refs'', JArr []), (''clock'', ?clock), (''v'', JNum 2),
              (''key'', JStr ''pk''), (''identity'', JStr ''zid''), (''sig'', ?sg)]"
  show ?thesis
  proof (rule payload_encryption_roundtrip [where next' = "JArr []" and refs = "JArr []" and
        clock = ?clock and pb = "toy_ser (JStr ''hello'')" and c = ?c and
        snapshot = ?snapshot and sb = "toy_ser ?snapshot" and sg = ?sg and
        wire = "JObj ?ps" and wb = "toy_ser (JObj ?ps)" and ps = ?ps])
    show "codec_decode toy_env (toy_ser (JObj ?ps)) = Inr (JObj ?ps)"
      by (simp add: toy_env_def toy_decode_def toy_ser_string_def char_of_def bit_0 bit_Suc)
    show "codec_decode toy_env (toy_ser (JStr ''hello'')) = Inr (JStr ''hello'')"
      by (simp add: toy_env_def toy_decode_def toy_ser_string_def char_of_def bit_0 bit_Suc)
    show "toy_decrypt (JBytes ?c) = Inr (toy_ser (JStr ''hello''))"
      by (simp add: toy_decrypt_def comp_def)
  qed (simp_all add: default_arg_def Clock_def toy_env_def toy_identity_def toy_identities_def
      toy_encrypt_def)
qed

end
